theory Spec2Isabelle
  imports Main "HOL-Library.Sublist"
begin

section \<open>Strings as the workflow uses them\<close>

text \<open>
  JavaScript strings are modelled as \<open>string\<close>, a list of 8-bit characters holding the
  UTF-8 text. The string methods the workflow calls are modelled on the ASCII range:
  \<open>toLowerCase\<close> maps \<open>A\<close>..\<open>Z\<close>, and white space (\<open>trim\<close>, the class \<open>\s\<close>) is
  tab, line feed, vertical tab, form feed, carriage return and space. GitHub logins
  and repository names are ASCII, so this is the range the workflow meets.
\<close>

definition toLowerCase_char :: "char \<Rightarrow> char" where
  "toLowerCase_char c =
     (case map_of (zip ''ABCDEFGHIJKLMNOPQRSTUVWXYZ'' ''abcdefghijklmnopqrstuvwxyz'') c of
        Some l \<Rightarrow> l
      | None \<Rightarrow> c)"

definition toLowerCase :: "string \<Rightarrow> string" where
  "toLowerCase s = map toLowerCase_char s"

definition is_space :: "char \<Rightarrow> bool" where
  "is_space c \<longleftrightarrow> c \<in> set [CHR 0x09, CHR 0x0A, CHR 0x0B, CHR 0x0C, CHR 0x0D, CHR 0x20]"

definition trim :: "string \<Rightarrow> string" where
  "trim s = rev (dropWhile is_space (rev (dropWhile is_space s)))"

text \<open>\<open>strip_prefix p s\<close> is the rest of \<open>s\<close> after the literal \<open>p\<close>, when \<open>s\<close> starts with it.\<close>

fun strip_prefix :: "string \<Rightarrow> string \<Rightarrow> string option" where
  "strip_prefix [] s = Some s"
| "strip_prefix (p # ps) [] = None"
| "strip_prefix (p # ps) (c # cs) = (if p = c then strip_prefix ps cs else None)"

text \<open>\<open>s.replace(/\.git$/, "")\<close>: one trailing \<open>.git\<close> is removed, when there is one.\<close>

definition replace_git_suffix :: "string \<Rightarrow> string" where
  "replace_git_suffix s =
     (case strip_prefix (rev ''.git'') (rev s) of
        Some r \<Rightarrow> rev r
      | None \<Rightarrow> s)"

text \<open>\<open>s.replace(/"/g, "")\<close>: every double quote is removed.\<close>

definition remove_quotes :: "string \<Rightarrow> string" where
  "remove_quotes s = filter (\<lambda>c. c \<noteq> CHR 0x22) s"

text \<open>
  The decimal rendering of an integer inside a template literal, as
  \<open>`code0-${Date.now()}`\<close> produces it.
\<close>

definition digit_char :: "nat \<Rightarrow> char" where
  "digit_char d = ''0123456789'' ! d"

fun show_nat :: "nat \<Rightarrow> string" where
  "show_nat n = (if n < 10 then [digit_char n] else show_nat (n div 10) @ [digit_char (n mod 10)])"

definition show_int :: "int \<Rightarrow> string" where
  "show_int i = (if i < 0 then CHR ''-'' # show_nat (nat (- i)) else show_nat (nat i))"

section \<open>The two regular expressions\<close>

text \<open>
  The workflow matches two patterns, both a sequence of literals, greedy one-or-more
  character classes (captured or not), optional literals and the end anchor. The
  matcher below is the backtracking matcher of JavaScript restricted to these items:
  a greedy class first takes the longest run and gives characters back one at a time
  while the rest of the pattern fails; an optional literal is first tried present,
  then absent.
\<close>

datatype cls = NotSlash | NotSpace

fun in_cls :: "cls \<Rightarrow> char \<Rightarrow> bool" where
  "in_cls NotSlash c = (c \<noteq> CHR ''/'')"
| "in_cls NotSpace c = (\<not> is_space c)"

datatype rx_item = Lit string | CapPlus cls | Plus cls | OptLit string | Eos

text \<open>
  \<open>greedy k cap s n\<close> tries to continue with \<open>k\<close> after taking \<open>n\<close>, then \<open>n - 1\<close>, ...,
  then one character of \<open>s\<close>; with \<open>cap\<close> the characters taken are a capture group.
\<close>

primrec greedy ::
  "(string \<Rightarrow> (string list \<times> string) option) \<Rightarrow> bool \<Rightarrow> string \<Rightarrow> nat
     \<Rightarrow> (string list \<times> string) option" where
  "greedy k cap s 0 = None"
| "greedy k cap s (Suc n) =
     (case k (drop (Suc n) s) of
        Some (caps, r) \<Rightarrow> Some (if cap then take (Suc n) s # caps else caps, r)
      | None \<Rightarrow> greedy k cap s n)"

text \<open>\<open>rx_match items s\<close> matches at the start of \<open>s\<close>: the captures and the unread rest.\<close>

primrec rx_match :: "rx_item list \<Rightarrow> string \<Rightarrow> (string list \<times> string) option" where
  "rx_match [] s = Some ([], s)"
| "rx_match (i # is) s =
     (case i of
        Lit l \<Rightarrow> (case strip_prefix l s of None \<Rightarrow> None | Some r \<Rightarrow> rx_match is r)
      | OptLit l \<Rightarrow>
          (case strip_prefix l s of
             None \<Rightarrow> rx_match is s
           | Some r \<Rightarrow> (case rx_match is r of Some m \<Rightarrow> Some m | None \<Rightarrow> rx_match is s))
      | Eos \<Rightarrow> (if s = [] then rx_match is s else None)
      | Plus c \<Rightarrow> greedy (rx_match is) False s (length (takeWhile (in_cls c) s))
      | CapPlus c \<Rightarrow> greedy (rx_match is) True s (length (takeWhile (in_cls c) s)))"

text \<open>
  \<open>str.match(re)\<close> without the \<open>g\<close> flag: the match at the leftmost position where there
  is one, as the matched text and the capture groups.
\<close>

fun rx_search :: "rx_item list \<Rightarrow> string \<Rightarrow> (string \<times> string list) option" where
  "rx_search re s =
     (case rx_match re s of
        Some (caps, r) \<Rightarrow> Some (take (length s - length r) s, caps)
      | None \<Rightarrow> (case s of [] \<Rightarrow> None | c # cs \<Rightarrow> rx_search re cs))"

text \<open>\<open>/github\.com\/([^\/]+)\/([^\/]+)(?:\.git)?(?:\/)?$/\<close>\<close>

definition repo_regex :: "rx_item list" where
  "repo_regex =
     [Lit ''github.com/'', CapPlus NotSlash, Lit ''/'', CapPlus NotSlash,
      OptLit ''.git'', OptLit ''/'', Eos]"

text \<open>\<open>/https:\/\/github\.com\/[^\s]+/\<close>\<close>

definition pr_url_regex :: "rx_item list" where
  "pr_url_regex = [Lit ''https://github.com/'', Plus NotSpace]"

text \<open>
  Lines 54 to 66: the match of the repository URL, then \<open>owner\<close> and \<open>repoName\<close> with a
  trailing \<open>.git\<close> removed and lower-cased. \<open>None\<close> is the failed match.
\<close>

definition parse_repo_url :: "string \<Rightarrow> (string \<times> string) option" where
  "parse_repo_url url =
     (case rx_search repo_regex url of
        Some (m, [owner, repoName]) \<Rightarrow>
          Some (toLowerCase (replace_git_suffix owner), toLowerCase (replace_git_suffix repoName))
      | _ \<Rightarrow> None)"

text \<open>Lines 267 to 270: the pull-request URL in the output of \<open>gh pr create\<close>.\<close>

definition extract_pr_url :: "string \<Rightarrow> string \<Rightarrow> string \<Rightarrow> string" where
  "extract_pr_url prResult owner repoName =
     (case rx_search pr_url_regex prResult of
        Some (m, caps) \<Rightarrow> m
      | None \<Rightarrow> ''https://github.com/'' @ owner @ ''/'' @ repoName @ ''/pulls'')"

section \<open>The data model\<close>

text \<open>Lines 3 to 24. An optional field is an \<open>option\<close>: \<open>None\<close> is \<open>undefined\<close>.\<close>

record pr_data =
  prUrl :: string
  branchName :: string
  sandboxId :: string
  forked :: "bool option"
  forkUrl :: "string option"

record CreatePRResult =
  success :: bool
  data :: "pr_data option"
  error :: "string option"

record file_change =
  path :: string
  content :: string

record CreatePROptions =
  repoUrl :: string
  commitMessage :: "string option"
  prTitle :: "string option"
  prBody :: "string option"
  fileChanges :: "file_change list option"

section \<open>The external collaborators\<close>

text \<open>
  A thrown value is an \<open>Error\<close> with its message, or something else; the two handlers
  that look at it (lines 116 and 288) only ask \<open>error instanceof Error\<close> and read
  \<open>error.message\<close>.
\<close>

datatype thrown = JsError string | NonError

definition thrown_message :: "thrown \<Rightarrow> string \<Rightarrow> string" where
  "thrown_message e dflt = (case e of JsError m \<Rightarrow> m | NonError \<Rightarrow> dflt)"

text \<open>
  Every shell command the workflow runs, one constructor for each call of
  \<open>client.commands.run\<close> in the source; \<open>render\<close> is the template literal.
\<close>

datatype cmd =
    GhAuthLogin string
  | GhAuthSetupGit
  | GitConfigUserName
  | GitConfigUserEmail
  | GhApiUserLogin
  | GhRepoView string string
  | TestDir string
  | GitStatus string
  | GitRemoteSetUrlOrigin string string
  | GitRemoteAddOrigin string string
  | GitRemoteAddUpstream string string
  | GitRemoteSetUrlUpstream string string
  | RmRf string
  | GitClone string string
  | GitCheckoutMain string
  | GitFetchUpstream string
  | GitMergeUpstreamMain string
  | GitPushOriginMain string
  | GitPullOriginMain string
  | GitCheckoutNewBranch string string
  | GitAddAll string
  | GhApiUserEmail string
  | GitCommit string string
  | GitPushSetUpstream string string
  | GhPrCreateFromFork string string string string string string string
  | GhPrCreate string string string string

definition sq :: string where
  "sq = [CHR 0x27]"

fun render :: "cmd \<Rightarrow> string" where
  \<open>render (GhAuthLogin accessToken) = ''echo "'' @ accessToken @ ''" | gh auth login --with-token''\<close>
| \<open>render GhAuthSetupGit = ''gh auth setup-git''\<close>
| \<open>render GitConfigUserName = ''git config --global user.name '' @ sq @ ''code0'' @ sq\<close>
| \<open>render GitConfigUserEmail =
     ''git config --global user.email '' @ sq @ ''anthony@crafterstation.com'' @ sq\<close>
| \<open>render GhApiUserLogin = ''gh api user --jq '' @ sq @ ''.login'' @ sq\<close>
| \<open>render (GhRepoView user repoName) = ''gh repo view '' @ user @ ''/'' @ repoName\<close>
| \<open>render (TestDir repoDir) =
     ''test -d '' @ repoDir @ '' && echo "exists" || echo "not_exists"''\<close>
| \<open>render (GitStatus repoDir) = ''cd '' @ repoDir @ '' && git status''\<close>
| \<open>render (GitRemoteSetUrlOrigin repoDir url) =
     ''cd '' @ repoDir @ '' && git remote set-url origin '' @ url\<close>
| \<open>render (GitRemoteAddOrigin repoDir url) =
     ''cd '' @ repoDir @ '' && git remote add origin '' @ url\<close>
| \<open>render (GitRemoteAddUpstream repoDir url) =
     ''cd '' @ repoDir @ '' && git remote add upstream '' @ url\<close>
| \<open>render (GitRemoteSetUrlUpstream repoDir url) =
     ''cd '' @ repoDir @ '' && git remote set-url upstream '' @ url\<close>
| \<open>render (RmRf repoDir) = ''rm -rf '' @ repoDir\<close>
| \<open>render (GitClone url repoDir) = ''git clone '' @ url @ '' '' @ repoDir\<close>
| \<open>render (GitCheckoutMain repoDir) = ''cd '' @ repoDir @ '' && git checkout main''\<close>
| \<open>render (GitFetchUpstream repoDir) = ''cd '' @ repoDir @ '' && git fetch upstream''\<close>
| \<open>render (GitMergeUpstreamMain repoDir) = ''cd '' @ repoDir @ '' && git merge upstream/main''\<close>
| \<open>render (GitPushOriginMain repoDir) = ''cd '' @ repoDir @ '' && git push origin main''\<close>
| \<open>render (GitPullOriginMain repoDir) = ''cd '' @ repoDir @ '' && git pull origin main''\<close>
| \<open>render (GitCheckoutNewBranch repoDir branch) =
     ''cd '' @ repoDir @ '' && git checkout -b '' @ branch\<close>
| \<open>render (GitAddAll repoDir) = ''cd '' @ repoDir @ '' && git add .''\<close>
| \<open>render (GhApiUserEmail repoDir) =
     ''cd '' @ repoDir @ '' && gh api user --jq '' @ sq
       @ ''.email // (.login + "@users.noreply.github.com")'' @ sq\<close>
| \<open>render (GitCommit repoDir msg) = ''cd '' @ repoDir @ '' && git commit -m "'' @ msg @ ''"''\<close>
| \<open>render (GitPushSetUpstream repoDir branch) =
     ''cd '' @ repoDir @ '' && git push --set-upstream origin '' @ branch\<close>
| \<open>render (GhPrCreateFromFork repoDir title body user branch owner repoName) =
     ''cd '' @ repoDir @ '' && gh pr create --title "'' @ title @ ''" --body "'' @ body
       @ ''" --head '' @ user @ '':'' @ branch @ '' --base main --repo '' @ owner @ ''/'' @ repoName\<close>
| \<open>render (GhPrCreate repoDir title body branch) =
     ''cd '' @ repoDir @ '' && gh pr create --title "'' @ title @ ''" --body "'' @ body
       @ ''" --head '' @ branch @ '' --base main''\<close>

text \<open>
  The calls that leave the process: the sandbox SDK, the command runner and the file
  API of the connected client. \<open>SandboxCreate\<close> is the call of \<open>src/labs/index.ts\<close>;
  the workflow has no call site for it.
\<close>

datatype op =
    SandboxResume string
  | SandboxCreate string
  | SandboxConnect
  | CommandsRun cmd
  | FsWriteTextFile string string
  | FsReadTextFile string
  | SandboxShutdown string

text \<open>
  An event is a call with what came back: a thrown value, or the returned text (the
  sandbox id for \<open>SandboxResume\<close>, the printed output for a command, the file content
  for a read, and nothing of interest otherwise).
\<close>

type_synonym event = "op \<times> (thrown + string)"

text \<open>
  The world outside is an arbitrary function of everything that has happened so far:
  the environment variable, the reply to each call given the events before it, and
  the two readings of the clock (\<open>Date.now()\<close> and \<open>new Date().toISOString()\<close>).
  A reply may depend on the call in full, and so on every character of the command
  text that \<open>render\<close> gives.
\<close>

record env =
  accessToken :: "string option"
  respond :: "event list \<Rightarrow> op \<Rightarrow> thrown + string"
  date_now :: "event list \<Rightarrow> int"
  date_iso :: "event list \<Rightarrow> string"

section \<open>Sequencing, exceptions and the event log\<close>

text \<open>
  A step runs in an environment from the events so far, and gives the value it
  returns or the value it throws, with the events extended by its own calls.
\<close>

type_synonym 'a prog = "env \<Rightarrow> event list \<Rightarrow> (thrown + 'a) \<times> event list"

definition return :: "'a \<Rightarrow> 'a prog" where
  "return x = (\<lambda>e t. (Inr x, t))"

definition bind :: "'a prog \<Rightarrow> ('a \<Rightarrow> 'b prog) \<Rightarrow> 'b prog" where
  "bind m f = (\<lambda>e t. case m e t of (Inl err, t') \<Rightarrow> (Inl err, t') | (Inr x, t') \<Rightarrow> f x e t')"

definition try_catch :: "'a prog \<Rightarrow> (thrown \<Rightarrow> 'a prog) \<Rightarrow> 'a prog" where
  "try_catch m h = (\<lambda>e t. case m e t of (Inl err, t') \<Rightarrow> h err e t' | (Inr x, t') \<Rightarrow> (Inr x, t'))"

definition call :: "op \<Rightarrow> string prog" where
  "call p = (\<lambda>e t. let r = respond e t p in (r, t @ [(p, r)]))"

definition run :: "cmd \<Rightarrow> string prog" where
  "run c = call (CommandsRun c)"

definition Date_now :: "int prog" where
  "Date_now = (\<lambda>e t. (Inr (date_now e t), t))"

definition Date_toISOString :: "string prog" where
  "Date_toISOString = (\<lambda>e t. (Inr (date_iso e t), t))"

text \<open>A command run as a statement: its output is dropped.\<close>

definition exec :: "cmd \<Rightarrow> unit prog" where
  "exec c = bind (run c) (\<lambda>_. return ())"

section \<open>The workflow of \<open>createGitHubPR\<close>\<close>

text \<open>
  The function is one sequence of awaited steps. It is cut here into the stages its
  comments name, each with the lines it embeds. \<open>console.log\<close> is left out: it throws
  nothing and returns nothing the workflow reads.
\<close>

definition the_default :: "'a \<Rightarrow> 'a option \<Rightarrow> 'a" where
  "the_default d x = (case x of None \<Rightarrow> d | Some v \<Rightarrow> v)"

definition default_commitMessage :: string where
  "default_commitMessage = ''feat: Automated update via AI agent''"

definition default_prTitle :: string where
  "default_prTitle = [CHR 0xF0, CHR 0x9F, CHR 0xA4, CHR 0x96] @ '' AI Agent Update: Automated changes''"

definition default_prBody :: string where
  "default_prBody = ''This PR was automatically created by an AI agent.''"

text \<open>Lines 73 to 81.\<close>

definition authenticate :: "string \<Rightarrow> unit prog" where
  "authenticate token =
     bind (exec (GhAuthLogin token)) (\<lambda>_.
     bind (exec GhAuthSetupGit) (\<lambda>_.
     bind (exec GitConfigUserName) (\<lambda>_.
     exec GitConfigUserEmail)))"

text \<open>Lines 83 to 88.\<close>

definition get_authenticated_username :: "string prog" where
  "get_authenticated_username =
     bind (run GhApiUserLogin) (\<lambda>userInfoResult.
     return (toLowerCase (trim userInfoResult)))"

text \<open>
  Lines 90 to 120. The stage either leaves the function (the \<open>return\<close> of line 114) or
  goes on with \<open>(workingRepoUrl, forked, forkUrl)\<close>. The \<open>try\<close> block of lines 98 to
  102 holds three assignments and a log line, so it is a step that returns.
\<close>

datatype 'a flow = Return CreatePRResult | Continue 'a

definition fork_url_of :: "string \<Rightarrow> string \<Rightarrow> string" where
  "fork_url_of user repoName = ''https://github.com/'' @ user @ ''/'' @ repoName"

definition resolve_fork ::
  "string \<Rightarrow> string \<Rightarrow> string \<Rightarrow> string \<Rightarrow> (string \<times> bool \<times> string) flow prog" where
  "resolve_fork owner user repoName repo_url =
     (if owner = user then return (Continue (repo_url, False, []))
      else
        try_catch
          (return (Continue (fork_url_of user repoName, True, fork_url_of user repoName)))
          (\<lambda>error.
             try_catch
               (bind (exec (GhRepoView user repoName)) (\<lambda>_.
                return (Continue (fork_url_of user repoName, True, fork_url_of user repoName))))
               (\<lambda>_. return (Return
                  \<lparr>success = False, data = None,
                   error = Some (''Failed to fork repository and no existing fork found: ''
                             @ thrown_message error ''Unknown error'')\<rparr>))))"

text \<open>Lines 126 to 133.\<close>

definition test_directory :: "string \<Rightarrow> bool prog" where
  "test_directory repoDir =
     try_catch
       (bind (run (TestDir repoDir)) (\<lambda>testResult. return (trim testResult = ''exists'')))
       (\<lambda>_. return False)"

text \<open>Lines 142 to 162.\<close>

definition set_remotes :: "string \<Rightarrow> string \<Rightarrow> string \<Rightarrow> unit prog" where
  "set_remotes repoDir workingRepoUrl repo_url =
     bind (try_catch (exec (GitRemoteSetUrlOrigin repoDir workingRepoUrl))
             (\<lambda>_. exec (GitRemoteAddOrigin repoDir workingRepoUrl))) (\<lambda>_.
     try_catch (exec (GitRemoteAddUpstream repoDir repo_url))
       (\<lambda>_. exec (GitRemoteSetUrlUpstream repoDir repo_url)))"

text \<open>Lines 135 to 169: the value is \<open>directoryExists\<close> after the block.\<close>

definition check_existing :: "string \<Rightarrow> bool \<Rightarrow> string \<Rightarrow> string \<Rightarrow> bool prog" where
  "check_existing repoDir is_forked workingRepoUrl repo_url =
     try_catch
       (bind (exec (GitStatus repoDir)) (\<lambda>_.
        bind (if is_forked then set_remotes repoDir workingRepoUrl repo_url else return ()) (\<lambda>_.
        return True)))
       (\<lambda>_. bind (exec (RmRf repoDir)) (\<lambda>_. return False))"

text \<open>Lines 171 to 180.\<close>

definition clone_fresh :: "string \<Rightarrow> bool \<Rightarrow> string \<Rightarrow> string \<Rightarrow> unit prog" where
  "clone_fresh repoDir is_forked workingRepoUrl repo_url =
     bind (exec (GitClone workingRepoUrl repoDir)) (\<lambda>_.
     if is_forked then exec (GitRemoteAddUpstream repoDir repo_url) else return ())"

text \<open>Lines 122 to 180.\<close>

definition ensure_clone :: "string \<Rightarrow> bool \<Rightarrow> string \<Rightarrow> string \<Rightarrow> unit prog" where
  "ensure_clone repoDir is_forked workingRepoUrl repo_url =
     bind (test_directory repoDir) (\<lambda>directoryExists.
     bind (if directoryExists then check_existing repoDir is_forked workingRepoUrl repo_url
           else return directoryExists) (\<lambda>directoryExists.
     if \<not> directoryExists then clone_fresh repoDir is_forked workingRepoUrl repo_url
     else return ()))"

text \<open>Lines 182 to 196.\<close>

definition sync_main :: "string \<Rightarrow> bool \<Rightarrow> unit prog" where
  "sync_main repoDir is_forked =
     bind (exec (GitCheckoutMain repoDir)) (\<lambda>_.
     if is_forked then
       try_catch
         (bind (exec (GitFetchUpstream repoDir)) (\<lambda>_.
          bind (exec (GitMergeUpstreamMain repoDir)) (\<lambda>_.
          exec (GitPushOriginMain repoDir))))
         (\<lambda>error. return ())
     else exec (GitPullOriginMain repoDir))"

text \<open>Lines 198 to 200.\<close>

definition create_branch :: "string \<Rightarrow> string prog" where
  "create_branch repoDir =
     bind Date_now (\<lambda>now.
     bind (exec (GitCheckoutNewBranch repoDir (''code0-'' @ show_int now))) (\<lambda>_.
     return (''code0-'' @ show_int now)))"

text \<open>Lines 204 to 209: the loop over the supplied edits.\<close>

fun write_changes :: "string \<Rightarrow> file_change list \<Rightarrow> unit prog" where
  "write_changes repoDir [] = return ()"
| "write_changes repoDir (change # changes) =
     bind (call (FsWriteTextFile (repoDir @ ''/'' @ path change) (content change))) (\<lambda>_.
     write_changes repoDir changes)"

text \<open>Lines 216 and 220: the two texts, after \<open>${readmeResult}\<close> and after \<open># ${repoName}\<close>.\<close>

definition readme_update_section :: "string \<Rightarrow> string" where
  "readme_update_section stamp =
     ''\<newline>\<newline>## AI Agent Update\<newline>\<newline>This update was made by an AI agent (code0) using the CodeSandbox API.\<newline>\<newline>- Automated file modification\<newline>- Demonstration of AI-driven development workflow\<newline>- Generated on: ''
     @ stamp"

definition readme_create_section :: "string \<Rightarrow> string" where
  "readme_create_section stamp =
     ''\<newline>\<newline>## AI Agent Update\<newline>\<newline>This repository was updated by an AI agent (code0) using the CodeSandbox API.\<newline>\<newline>- Automated file modification\<newline>- Demonstration of AI-driven development workflow\<newline>- Generated on: ''
     @ stamp"

definition readme_path :: "string \<Rightarrow> string" where
  "readme_path repoDir = ''./'' @ repoDir @ ''/README.md''"

text \<open>Lines 211 to 222.\<close>

definition update_readme :: "string \<Rightarrow> string \<Rightarrow> unit prog" where
  "update_readme repoDir repoName =
     try_catch
       (bind (call (FsReadTextFile (readme_path repoDir))) (\<lambda>readmeResult.
        bind Date_toISOString (\<lambda>stamp.
        bind (call (FsWriteTextFile (readme_path repoDir)
                     (readmeResult @ readme_update_section stamp))) (\<lambda>_.
        return ()))))
       (\<lambda>_.
        bind Date_toISOString (\<lambda>stamp.
        bind (call (FsWriteTextFile (readme_path repoDir)
                     (''# '' @ repoName @ readme_create_section stamp))) (\<lambda>_.
        return ())))"

text \<open>Lines 202 to 223.\<close>

definition apply_changes :: "string \<Rightarrow> string \<Rightarrow> file_change list \<Rightarrow> unit prog" where
  "apply_changes repoDir repoName changes =
     (if length changes > 0 then write_changes repoDir changes
      else update_readme repoDir repoName)"

text \<open>Lines 225 to 244.\<close>

definition commit_and_push :: "string \<Rightarrow> string \<Rightarrow> string \<Rightarrow> string \<Rightarrow> unit prog" where
  "commit_and_push repoDir user message branch =
     bind (exec (GitAddAll repoDir)) (\<lambda>_.
     bind (run (GhApiUserEmail repoDir)) (\<lambda>userEmailResult.
     bind (exec (GitCommit repoDir
                   (message @ ''\<newline>\<newline>Co-authored-by: '' @ user @ '' <''
                      @ remove_quotes (trim userEmailResult) @ ''>''))) (\<lambda>_.
     exec (GitPushSetUpstream repoDir branch))))"

text \<open>Lines 247 to 251.\<close>

definition full_pr_body ::
  "string \<Rightarrow> string \<Rightarrow> string \<Rightarrow> string \<Rightarrow> string \<Rightarrow> string \<Rightarrow> bool \<Rightarrow> string \<Rightarrow> string" where
  "full_pr_body body user stamp owner repoName branch is_forked fork_url =
     body @ ''\<newline>\<newline>### Technical Details:\<newline>- **Commit Author**: code0 (AI Agent)\<newline>- **PR Creator**: ''
       @ user @ '' (via personal access token)\<newline>- **Generated**: '' @ stamp
       @ ''\<newline>- **Repository**: '' @ owner @ ''/'' @ repoName
       @ ''\<newline>- **Branch**: '' @ branch
       @ (if is_forked then ''\<newline>- **Fork**: '' @ fork_url @ ''\<newline>- **Created from fork**: Yes''
          else [])"

text \<open>Lines 246 to 264: the value is \<open>prResult\<close>.\<close>

definition create_pr ::
  "string \<Rightarrow> string \<Rightarrow> string \<Rightarrow> string \<Rightarrow> string \<Rightarrow> string \<Rightarrow> string \<Rightarrow> bool \<Rightarrow> string
     \<Rightarrow> string prog" where
  "create_pr repoDir repoName title body user owner branch is_forked fork_url =
     bind Date_toISOString (\<lambda>stamp.
     if is_forked then
       run (GhPrCreateFromFork repoDir title
              (full_pr_body body user stamp owner repoName branch is_forked fork_url)
              user branch owner repoName)
     else
       run (GhPrCreate repoDir title
              (full_pr_body body user stamp owner repoName branch is_forked fork_url) branch))"

text \<open>Lines 266 to 284.\<close>

definition finish ::
  "string \<Rightarrow> string \<Rightarrow> string \<Rightarrow> string \<Rightarrow> string \<Rightarrow> bool \<Rightarrow> string \<Rightarrow> CreatePRResult prog" where
  "finish sandbox_id owner repoName branch prResult is_forked fork_url =
     bind (call (SandboxShutdown sandbox_id)) (\<lambda>_.
     return
       \<lparr>success = True,
        data = Some
          \<lparr>prUrl = extract_pr_url prResult owner repoName,
           branchName = branch,
           sandboxId = sandbox_id,
           forked = Some is_forked,
           forkUrl = (if is_forked then Some fork_url else None)\<rparr>,
        error = None\<rparr>)"

text \<open>Lines 122 to 284, once the fork is resolved; \<open>repoDir\<close> is \<open>repoName\<close> (line 123).\<close>

definition after_fork ::
  "CreatePROptions \<Rightarrow> string \<Rightarrow> string \<Rightarrow> string \<Rightarrow> string \<Rightarrow> string \<Rightarrow> bool \<Rightarrow> string
     \<Rightarrow> CreatePRResult prog" where
  "after_fork options sandbox_id owner repoName user workingRepoUrl is_forked fork_url =
     bind (ensure_clone repoName is_forked workingRepoUrl (repoUrl options)) (\<lambda>_.
     bind (sync_main repoName is_forked) (\<lambda>_.
     bind (create_branch repoName) (\<lambda>branch.
     bind (apply_changes repoName repoName (the_default [] (fileChanges options))) (\<lambda>_.
     bind (commit_and_push repoName user
             (the_default default_commitMessage (commitMessage options)) branch) (\<lambda>_.
     bind (create_pr repoName repoName (the_default default_prTitle (prTitle options))
             (the_default default_prBody (prBody options)) user owner branch is_forked fork_url)
       (\<lambda>prResult.
     finish sandbox_id owner repoName branch prResult is_forked fork_url))))))"

text \<open>Lines 71 to 284, with the sandbox in hand.\<close>

definition with_sandbox ::
  "CreatePROptions \<Rightarrow> string \<Rightarrow> string \<Rightarrow> string \<Rightarrow> string \<Rightarrow> CreatePRResult prog" where
  "with_sandbox options token owner repoName sandbox_id =
     bind (call SandboxConnect) (\<lambda>_.
     bind (authenticate token) (\<lambda>_.
     bind get_authenticated_username (\<lambda>user.
     bind (resolve_fork owner user repoName (repoUrl options)) (\<lambda>resolved.
     case resolved of
       Return result \<Rightarrow> return result
     | Continue (workingRepoUrl, is_forked, fork_url) \<Rightarrow>
         after_fork options sandbox_id owner repoName user workingRepoUrl is_forked fork_url))))"

text \<open>Lines 68 to 284, once the token and the URL are accepted.\<close>

definition workflow :: "CreatePROptions \<Rightarrow> string \<Rightarrow> string \<Rightarrow> string \<Rightarrow> CreatePRResult prog" where
  "workflow options token owner repoName =
     bind (call (SandboxResume ''wmwx2g'')) (\<lambda>sandbox_id.
     with_sandbox options token owner repoName sandbox_id)"

text \<open>Lines 43 to 284: the body of the outer \<open>try\<close>.\<close>

definition try_body :: "CreatePROptions \<Rightarrow> CreatePRResult prog" where
  "try_body options = (\<lambda>e.
     (case accessToken e of
        None \<Rightarrow>
          return \<lparr>success = False, data = None,
                  error = Some ''GITHUB_PERSONAL_ACCESS_TOKEN environment variable is required''\<rparr>
      | Some token \<Rightarrow>
          if token = [] then
            return \<lparr>success = False, data = None,
                    error = Some ''GITHUB_PERSONAL_ACCESS_TOKEN environment variable is required''\<rparr>
          else
            (case parse_repo_url (repoUrl options) of
               None \<Rightarrow>
                 return \<lparr>success = False, data = None,
                         error = Some ''Invalid GitHub repository URL format''\<rparr>
             | Some (owner, repoName) \<Rightarrow> workflow options token owner repoName)) e)"

text \<open>
  Lines 31 to 291. The value is what the promise settles to: \<open>Inr\<close> a result it
  resolves with, \<open>Inl\<close> a value it rejects with.
\<close>

definition createGitHubPR :: "CreatePROptions \<Rightarrow> CreatePRResult prog" where
  "createGitHubPR options =
     try_catch (try_body options)
       (\<lambda>error. return
          \<lparr>success = False, data = None,
           error = Some (thrown_message error ''Unknown error occurred'')\<rparr>)"

section \<open>Vocabulary of the properties\<close>

text \<open>The events a step adds when it runs in \<open>e\<close> after the events \<open>t\<close>.\<close>

definition issued :: "'a prog \<Rightarrow> env \<Rightarrow> event list \<Rightarrow> event list" where
  "issued m e t = drop (length t) (snd (m e t))"

text \<open>A step that, wherever it runs, keeps the events so far and only makes calls in \<open>P\<close>.\<close>

definition only_ops :: "(op \<Rightarrow> bool) \<Rightarrow> 'a prog \<Rightarrow> bool" where
  "only_ops P m \<longleftrightarrow> (\<forall>e t. \<exists>new. snd (m e t) = t @ new \<and> list_all (\<lambda>ev. P (fst ev)) new)"

text \<open>
  The shape of a result: a success carries the data and no error, with \<open>forkUrl\<close>
  defined exactly when \<open>forked\<close> is true; a failure carries an error and no data.
\<close>

definition well_formed_result :: "CreatePRResult \<Rightarrow> bool" where
  "well_formed_result res =
     (if success res then
        (case data res of
           Some d \<Rightarrow> error res = None \<and> ((forkUrl d \<noteq> None) = (forked d = Some True))
         | None \<Rightarrow> False)
      else error res \<noteq> None \<and> data res = None)"

text \<open>Calls of the file API, calls that acquire a sandbox, and the commands of interest.\<close>

fun is_fs_op :: "op \<Rightarrow> bool" where
  "is_fs_op (FsWriteTextFile p c) = True"
| "is_fs_op (FsReadTextFile p) = True"
| "is_fs_op _ = False"

fun is_acquire_op :: "op \<Rightarrow> bool" where
  "is_acquire_op (SandboxResume i) = True"
| "is_acquire_op (SandboxCreate i) = True"
| "is_acquire_op _ = False"

fun is_pr_create :: "op \<Rightarrow> bool" where
  "is_pr_create (CommandsRun (GhPrCreate d ti b br)) = True"
| "is_pr_create (CommandsRun (GhPrCreateFromFork d ti b u br ow r)) = True"
| "is_pr_create _ = False"

fun is_repo_view :: "op \<Rightarrow> bool" where
  "is_repo_view (CommandsRun (GhRepoView u r)) = True"
| "is_repo_view _ = False"

fun is_branch_create :: "op \<Rightarrow> bool" where
  "is_branch_create (CommandsRun (GitCheckoutNewBranch d b)) = True"
| "is_branch_create _ = False"

text \<open>
  A call between the landmarks of a run: not a file call, not a sandbox acquisition or
  shutdown, not the creation of the branch and not the creation of the pull request.
\<close>

definition plain_op :: "op \<Rightarrow> bool" where
  "plain_op p \<longleftrightarrow>
     \<not> is_fs_op p \<and> \<not> is_acquire_op p \<and> \<not> is_pr_create p \<and> \<not> is_branch_create p
     \<and> (\<forall>i. p \<noteq> SandboxShutdown i)"

text \<open>
  The contract of the sandbox SDK that the workflow relies on: a sandbox resumed by
  id is the sandbox with that id.
\<close>

definition resume_returns_requested :: "env \<Rightarrow> bool" where
  "resume_returns_requested e \<longleftrightarrow>
     (\<forall>h i sid. respond e h (SandboxResume i) = Inr sid \<longrightarrow> sid = i)"






text \<open>A reply that is a returned value, not a thrown one.\<close>

definition returned :: "thrown + string \<Rightarrow> bool" where
  "returned r = (case r of Inr x \<Rightarrow> True | Inl err \<Rightarrow> False)"

text \<open>
  What the default branch of the change step writes to the README, given what the read
  gave back and the time stamp: line 216 when the read returned, line 220 when it threw.
\<close>

definition readme_written :: "string \<Rightarrow> thrown + string \<Rightarrow> string \<Rightarrow> string" where
  "readme_written repoName rr stamp =
     (case rr of
        Inr readme \<Rightarrow> readme @ readme_update_section stamp
      | Inl err \<Rightarrow> ''# '' @ repoName @ readme_create_section stamp)"

text \<open>
  The integer in a branch name \<open>code0-<integer>\<close>: an optional minus sign and decimal
  digits, at least one. \<open>None\<close> when the name is not of that pattern.
\<close>

definition digit_value :: "char \<Rightarrow> nat option" where
  "digit_value c = map_of (zip ''0123456789'' [0, 1, 2, 3, 4, 5, 6, 7, 8, 9]) c"

definition read_nat :: "string \<Rightarrow> nat option" where
  "read_nat s =
     (if s \<noteq> [] \<and> list_all (\<lambda>c. digit_value c \<noteq> None) s
      then Some (foldl (\<lambda>a c. 10 * a + the_default 0 (digit_value c)) 0 s)
      else None)"

definition read_int :: "string \<Rightarrow> int option" where
  "read_int s =
     (case s of
        [] \<Rightarrow> None
      | c # cs \<Rightarrow>
          if c = CHR ''-'' then map_option (\<lambda>n. - int n) (read_nat cs)
          else map_option int (read_nat s))"

definition branch_integer :: "string \<Rightarrow> int option" where
  "branch_integer b =
     (case strip_prefix ''code0-'' b of
        None \<Rightarrow> None
      | Some s \<Rightarrow> read_int s)"

text \<open>A clock whose readings never go back as the events accumulate.\<close>

definition clock_monotone :: "env \<Rightarrow> bool" where
  "clock_monotone e \<longleftrightarrow> (\<forall>h h'. prefix h h' \<longrightarrow> date_now e h \<le> date_now e h')"

text \<open>
  A step whose thrown value, when it throws, is the reply of the last call it made:
  nothing throws but a call.
\<close>

definition raises_last :: "'a prog \<Rightarrow> bool" where
  "raises_last m \<longleftrightarrow>
     (\<forall>e t. \<exists>new. snd (m e t) = t @ new
        \<and> (\<forall>err. fst (m e t) = Inl err \<longrightarrow> new \<noteq> [] \<and> snd (last new) = Inl err))"




section \<open>Concrete runs\<close>

text \<open>
  An environment in which every call succeeds: the token is set, \<open>resume\<close> gives back
  the sandbox asked for, the signed-in user is \<open>alice\<close>, the repository directory is
  not there yet and \<open>gh pr create\<close> prints the URL of the new pull request.
\<close>

definition reply_ok :: "op \<Rightarrow> thrown + string" where
  "reply_ok p =
     (case p of
        SandboxResume i \<Rightarrow> Inr i
      | CommandsRun GhApiUserLogin \<Rightarrow> Inr ''Alice\<newline>''
      | CommandsRun (TestDir d) \<Rightarrow> Inr ''not_exists\<newline>''
      | CommandsRun (GhPrCreate d ti b br) \<Rightarrow> Inr ''https://github.com/alice/repo/pull/1\<newline>''
      | CommandsRun (GhPrCreateFromFork d ti b u br ow r) \<Rightarrow>
          Inr ''https://github.com/bob/repo/pull/2\<newline>''
      | _ \<Rightarrow> Inr [])"

definition env_ok :: env where
  "env_ok =
     \<lparr>accessToken = Some ''ghp_token'', respond = (\<lambda>h. reply_ok),
      date_now = (\<lambda>h. 1700000000000), date_iso = (\<lambda>h. ''2023-11-14T22:13:20.000Z'')\<rparr>"

text \<open>A request on a repository of \<open>alice\<close>, with one file edit.\<close>

definition opts_own :: CreatePROptions where
  "opts_own =
     \<lparr>repoUrl = ''https://github.com/Alice/Repo.git'', commitMessage = None, prTitle = None,
      prBody = None, fileChanges = Some [\<lparr>path = ''a.txt'', content = ''x''\<rparr>]\<rparr>"

text \<open>The result of that request in that environment.\<close>

definition res_own :: CreatePRResult where
  "res_own =
     \<lparr>success = True,
      data = Some \<lparr>prUrl = ''https://github.com/alice/repo/pull/1'',
                   branchName = ''code0-1700000000000'', sandboxId = ''wmwx2g'',
                   forked = Some False, forkUrl = None\<rparr>,
      error = None\<rparr>"



text \<open>A request on the same repository with no file edit.\<close>

definition opts_default :: CreatePROptions where
  "opts_default =
     \<lparr>repoUrl = ''https://github.com/Alice/Repo.git'', commitMessage = None, prTitle = None,
      prBody = None, fileChanges = None\<rparr>"

text \<open>The same environment with no README in the repository: the read throws.\<close>

definition reply_no_readme :: "op \<Rightarrow> thrown + string" where
  "reply_no_readme p =
     (case p of
        FsReadTextFile f \<Rightarrow> Inl (JsError ''ENOENT: no such file or directory'')
      | _ \<Rightarrow> reply_ok p)"

definition env_no_readme :: env where
  "env_no_readme = env_ok \<lparr>respond := (\<lambda>h. reply_no_readme)\<rparr>"

text \<open>
  The same environment with a system clock that is set back by five seconds after the
  twentieth call (as a clock synchronisation does).
\<close>

definition env_clock_back :: env where
  "env_clock_back =
     env_ok \<lparr>date_now := (\<lambda>h. if length h < 20 then 1700000005000 else 1700000000000)\<rparr>"

text \<open>
  The same environment for another user: \<open>bob\<close> is signed in and has no fork of the
  repository, so \<open>gh repo view bob/repo\<close> fails.
\<close>

definition reply_no_fork :: "op \<Rightarrow> thrown + string" where
  "reply_no_fork p =
     (case p of
        CommandsRun GhApiUserLogin \<Rightarrow> Inr ''bob\<newline>''
      | CommandsRun (GhRepoView u r) \<Rightarrow>
          Inl (JsError ''GraphQL: Could not resolve to a Repository with the name bob/repo.'')
      | _ \<Rightarrow> reply_ok p)"

definition env_no_fork :: env where
  "env_no_fork = env_ok \<lparr>respond := (\<lambda>h. reply_no_fork)\<rparr>"

definition res_forked :: CreatePRResult where
  "res_forked =
     \<lparr>success = True,
      data = Some \<lparr>prUrl = ''https://github.com/bob/repo/pull/2'',
                   branchName = ''code0-1700000000000'', sandboxId = ''wmwx2g'',
                   forked = Some True, forkUrl = Some ''https://github.com/bob/repo''\<rparr>,
      error = None\<rparr>"

text \<open>The environment of \<open>bob\<close> when the fork is there and the fetch from upstream fails.\<close>

definition reply_fetch_fails :: "op \<Rightarrow> thrown + string" where
  "reply_fetch_fails p =
     (case p of
        CommandsRun GhApiUserLogin \<Rightarrow> Inr ''bob\<newline>''
      | CommandsRun (GitFetchUpstream d) \<Rightarrow> Inl (JsError ''fatal: unable to access upstream'')
      | _ \<Rightarrow> reply_ok p)"

definition env_fetch_fails :: env where
  "env_fetch_fails = env_ok \<lparr>respond := (\<lambda>h. reply_fetch_fails)\<rparr>"

text \<open>An environment in which the sandbox SDK throws an \<open>Error\<close> with an empty message.\<close>

definition env_empty_error :: env where
  "env_empty_error = env_ok \<lparr>respond := (\<lambda>h p. Inl (JsError []))\<rparr>"

text \<open>An environment in which the sandbox is gone: every call throws.\<close>

definition env_sandbox_down :: env where
  "env_sandbox_down = env_ok \<lparr>respond := (\<lambda>h p. Inl (JsError ''Sandbox not found''))\<rparr>"

section \<open>Running steps\<close>

declare rx_search.simps [simp del]
declare show_nat.simps [simp del]

lemma return_apply: "return x e t = (Inr x, t)"
  by (simp add: return_def)

lemma bind_apply:
  "bind m f e t = (case m e t of (Inl err, t') \<Rightarrow> (Inl err, t') | (Inr x, t') \<Rightarrow> f x e t')"
  by (simp add: bind_def)

lemma try_catch_apply:
  "try_catch m h e t = (case m e t of (Inl err, t') \<Rightarrow> h err e t' | (Inr x, t') \<Rightarrow> (Inr x, t'))"
  by (simp add: try_catch_def)

lemma call_apply: "call p e t = (respond e t p, t @ [(p, respond e t p)])"
  by (simp add: call_def Let_def)

lemma Date_now_apply: "Date_now e t = (Inr (date_now e t), t)"
  by (simp add: Date_now_def)

lemma Date_toISOString_apply: "Date_toISOString e t = (Inr (date_iso e t), t)"
  by (simp add: Date_toISOString_def)

lemmas prog_apply =
  return_apply bind_apply try_catch_apply call_apply Date_now_apply Date_toISOString_apply
  run_def exec_def

lemma bind_eq_Inr:
  "bind m f e t = (Inr y, t') \<longleftrightarrow> (\<exists>x t1. m e t = (Inr x, t1) \<and> f x e t1 = (Inr y, t'))"
  by (cases "m e t") (auto simp: bind_def split: sum.splits)

lemma bind_eq_Inl:
  "bind m f e t = (Inl err, t') \<longleftrightarrow>
     m e t = (Inl err, t') \<or> (\<exists>x t1. m e t = (Inr x, t1) \<and> f x e t1 = (Inl err, t'))"
  by (cases "m e t") (auto simp: bind_def split: sum.splits)

lemma try_catch_eq:
  "try_catch m h e t = (r, t') \<longleftrightarrow>
     (\<exists>x. m e t = (Inr x, t') \<and> r = Inr x)
     \<or> (\<exists>err t1. m e t = (Inl err, t1) \<and> h err e t1 = (r, t'))"
  by (cases "m e t") (auto simp: try_catch_def split: sum.splits)

lemma return_eq: "return x e t = (r, t') \<longleftrightarrow> r = Inr x \<and> t' = t"
  by (auto simp: return_def)

lemma call_eq: "call p e t = (r, t') \<longleftrightarrow> respond e t p = r \<and> t' = t @ [(p, r)]"
  by (auto simp: call_def Let_def)

lemma run_eq: "run c e t = (r, t') \<longleftrightarrow> respond e t (CommandsRun c) = r \<and> t' = t @ [(CommandsRun c, r)]"
  by (simp add: run_def call_eq)

lemma exec_eq_Inr:
  "exec c e t = (Inr u, t') \<longleftrightarrow>
     (\<exists>out. respond e t (CommandsRun c) = Inr out \<and> t' = t @ [(CommandsRun c, Inr out)])"
  by (auto simp: exec_def bind_eq_Inr run_eq return_eq)

lemma flow_case_eq_Inr:
  "(case r of Return res0 \<Rightarrow> return res0 | Continue (w, f, u) \<Rightarrow> g w f u) e t = (Inr res, t') \<longleftrightarrow>
     (r = Return res \<and> t' = t)
     \<or> (\<exists>w f u. r = Continue (w, f, u) \<and> g w f u e t = (Inr res, t'))"
  by (cases r) (auto simp: return_eq)

section \<open>Steps that only make calls of one kind\<close>

lemma only_opsD:
  assumes "only_ops P m" and "m e t = (r, t')"
  shows "\<exists>new. t' = t @ new \<and> list_all (\<lambda>ev. P (fst ev)) new"
  using assms unfolding only_ops_def by (metis snd_conv)

lemma only_ops_mono: "only_ops P m \<Longrightarrow> (\<And>p. P p \<Longrightarrow> Q p) \<Longrightarrow> only_ops Q m"
  unfolding only_ops_def list_all_iff by metis

lemma only_return: "only_ops P (return x)"
  by (simp add: only_ops_def return_def)

lemma only_Date_now: "only_ops P Date_now"
  by (simp add: only_ops_def Date_now_def)

lemma only_Date_toISOString: "only_ops P Date_toISOString"
  by (simp add: only_ops_def Date_toISOString_def)

lemma only_call: "P p \<Longrightarrow> only_ops P (call p)"
  by (simp add: only_ops_def call_def Let_def)

lemma only_run: "P (CommandsRun c) \<Longrightarrow> only_ops P (run c)"
  by (simp add: run_def only_call)

lemma only_bind:
  assumes "only_ops P m" and "\<And>x. only_ops P (f x)"
  shows "only_ops P (bind m f)"
  unfolding only_ops_def
proof (intro allI)
  fix e t
  obtain r t1 where m: "m e t = (r, t1)" by (cases "m e t")
  from only_opsD [OF assms(1) m] obtain n1 where n1: "t1 = t @ n1" "list_all (\<lambda>ev. P (fst ev)) n1"
    by blast
  show "\<exists>new. snd (bind m f e t) = t @ new \<and> list_all (\<lambda>ev. P (fst ev)) new"
  proof (cases r)
    case (Inl err)
    with m n1 show ?thesis by (simp add: bind_apply)
  next
    case (Inr x)
    obtain r2 t2 where f: "f x e t1 = (r2, t2)" by (cases "f x e t1")
    from only_opsD [OF assms(2) f] obtain n2 where "t2 = t1 @ n2" "list_all (\<lambda>ev. P (fst ev)) n2"
      by blast
    with m n1 f Inr show ?thesis by (simp add: bind_apply)
  qed
qed

lemma only_try_catch:
  assumes "only_ops P m" and "\<And>err. only_ops P (h err)"
  shows "only_ops P (try_catch m h)"
  unfolding only_ops_def
proof (intro allI)
  fix e t
  obtain r t1 where m: "m e t = (r, t1)" by (cases "m e t")
  from only_opsD [OF assms(1) m] obtain n1 where n1: "t1 = t @ n1" "list_all (\<lambda>ev. P (fst ev)) n1"
    by blast
  show "\<exists>new. snd (try_catch m h e t) = t @ new \<and> list_all (\<lambda>ev. P (fst ev)) new"
  proof (cases r)
    case (Inr x)
    with m n1 show ?thesis by (simp add: try_catch_apply)
  next
    case (Inl err)
    obtain r2 t2 where h: "h err e t1 = (r2, t2)" by (cases "h err e t1")
    from only_opsD [OF assms(2) h] obtain n2 where "t2 = t1 @ n2" "list_all (\<lambda>ev. P (fst ev)) n2"
      by blast
    with m n1 h Inl show ?thesis by (simp add: try_catch_apply)
  qed
qed

lemma only_exec: "P (CommandsRun c) \<Longrightarrow> only_ops P (exec c)"
  by (simp add: exec_def only_bind only_run only_return)

lemma only_if: "(c \<Longrightarrow> only_ops P a) \<Longrightarrow> (\<not> c \<Longrightarrow> only_ops P b) \<Longrightarrow> only_ops P (if c then a else b)"
  by simp

lemma only_write_changes:
  "(\<And>p c. P (FsWriteTextFile p c)) \<Longrightarrow> only_ops P (write_changes repoDir changes)"
  by (induction changes) (simp_all add: only_return only_bind only_call)

lemmas only_intros =
  only_return only_Date_now only_Date_toISOString only_call only_run only_exec only_bind
  only_try_catch only_if

section \<open>What each stage adds to the events\<close>

lemma authenticate_plain: "only_ops plain_op (authenticate token)"
  unfolding authenticate_def by (intro only_intros) (simp_all add: plain_op_def)

lemma username_plain: "only_ops plain_op get_authenticated_username"
  unfolding get_authenticated_username_def by (intro only_intros) (simp_all add: plain_op_def)

lemma resolve_fork_plain: "only_ops plain_op (resolve_fork owner user repoName url)"
  unfolding resolve_fork_def by (intro only_intros) (simp_all add: plain_op_def)

lemma ensure_clone_plain: "only_ops plain_op (ensure_clone d fk w u)"
  unfolding ensure_clone_def test_directory_def check_existing_def clone_fresh_def set_remotes_def
  by (intro only_intros) (simp_all add: plain_op_def)

lemma sync_main_plain: "only_ops plain_op (sync_main d fk)"
  unfolding sync_main_def by (intro only_intros) (simp_all add: plain_op_def)

lemma finish_eq_Inr:
  "finish sid owner repoName branch out fk furl e t = (Inr res, t') \<longleftrightarrow>
     (\<exists>o3. respond e t (SandboxShutdown sid) = Inr o3
        \<and> t' = t @ [(SandboxShutdown sid, Inr o3)]
        \<and> res = \<lparr>success = True,
                 data = Some \<lparr>prUrl = extract_pr_url out owner repoName, branchName = branch,
                              sandboxId = sid, forked = Some fk,
                              forkUrl = (if fk then Some furl else None)\<rparr>,
                 error = None\<rparr>)"
  by (auto simp: finish_def bind_eq_Inr call_eq return_eq)

lemma create_pr_Inr:
  assumes "create_pr d r ti b u ow br fk furl e t = (Inr out, t')"
  shows "\<exists>pr. is_pr_create pr \<and> t' = t @ [(pr, Inr out)]"
  using assms
  by (auto simp: create_pr_def bind_eq_Inr Date_toISOString_apply run_eq split: if_splits)

lemma commit_and_push_Inr:
  assumes "commit_and_push d u m br e t = (Inr x, t')"
  shows "\<exists>o2 c1. t' = t @ (CommandsRun (GitAddAll d), Inr o2) # c1 \<and> list_all (\<lambda>ev. plain_op (fst ev)) c1"
  using assms
  by (auto simp: commit_and_push_def bind_eq_Inr exec_eq_Inr run_eq plain_op_def)

lemma create_branch_Inr:
  assumes "create_branch d e t = (Inr br, t')"
  shows "br = ''code0-'' @ show_int (date_now e t)
     \<and> (\<exists>o1. t' = t @ [(CommandsRun (GitCheckoutNewBranch d br), Inr o1)])"
  using assms
  by (auto simp: create_branch_def bind_eq_Inr exec_eq_Inr Date_now_apply return_eq)

lemma apply_changes_fs: "only_ops is_fs_op (apply_changes d r changes)"
  unfolding apply_changes_def update_readme_def
  by (intro only_intros only_write_changes) simp_all

lemma after_fork_Inr:
  assumes "after_fork opts sid owner repoName user wurl fk furl e t = (Inr res, t')"
  shows "\<exists>a1 br o1 b o2 c1 pr out o3.
       t' = t @ a1 @ [(CommandsRun (GitCheckoutNewBranch repoName br), Inr o1)] @ b
              @ [(CommandsRun (GitAddAll repoName), Inr o2)] @ c1
              @ [(pr, Inr out), (SandboxShutdown sid, Inr o3)]
     \<and> list_all (\<lambda>ev. plain_op (fst ev)) a1
     \<and> list_all (\<lambda>ev. plain_op (fst ev)) c1
     \<and> br = ''code0-'' @ show_int (date_now e (t @ a1))
     \<and> apply_changes repoName repoName (the_default [] (fileChanges opts)) e
          (t @ a1 @ [(CommandsRun (GitCheckoutNewBranch repoName br), Inr o1)])
        = (Inr (), t @ a1 @ [(CommandsRun (GitCheckoutNewBranch repoName br), Inr o1)] @ b)
     \<and> is_pr_create pr
     \<and> res = \<lparr>success = True,
              data = Some \<lparr>prUrl = extract_pr_url out owner repoName, branchName = br,
                           sandboxId = sid, forked = Some fk,
                           forkUrl = (if fk then Some furl else None)\<rparr>,
              error = None\<rparr>"
proof -
  from assms obtain x1 t1 x2 t2 br t3 x4 t4 x5 t5 out t6 where
    s1: "ensure_clone repoName fk wurl (repoUrl opts) e t = (Inr x1, t1)" and
    s2: "sync_main repoName fk e t1 = (Inr x2, t2)" and
    s3: "create_branch repoName e t2 = (Inr br, t3)" and
    s4: "apply_changes repoName repoName (the_default [] (fileChanges opts)) e t3 = (Inr x4, t4)" and
    s5: "commit_and_push repoName user (the_default default_commitMessage (commitMessage opts)) br e t4
           = (Inr x5, t5)" and
    s6: "create_pr repoName repoName (the_default default_prTitle (prTitle opts))
           (the_default default_prBody (prBody opts)) user owner br fk furl e t5 = (Inr out, t6)" and
    s7: "finish sid owner repoName br out fk furl e t6 = (Inr res, t')"
    unfolding after_fork_def bind_eq_Inr by blast
  from only_opsD [OF ensure_clone_plain s1] obtain n1 where
    n1: "t1 = t @ n1" "list_all (\<lambda>ev. plain_op (fst ev)) n1" by blast
  from only_opsD [OF sync_main_plain s2] obtain n2 where
    n2: "t2 = t1 @ n2" "list_all (\<lambda>ev. plain_op (fst ev)) n2" by blast
  from create_branch_Inr [OF s3] obtain o1 where
    br: "br = ''code0-'' @ show_int (date_now e t2)" and
    t3: "t3 = t2 @ [(CommandsRun (GitCheckoutNewBranch repoName br), Inr o1)]" by blast
  from only_opsD [OF apply_changes_fs s4] obtain b where b: "t4 = t3 @ b" by blast
  from commit_and_push_Inr [OF s5] obtain o2 c1 where
    t5: "t5 = t4 @ (CommandsRun (GitAddAll repoName), Inr o2) # c1" and
    c1: "list_all (\<lambda>ev. plain_op (fst ev)) c1" by blast
  from create_pr_Inr [OF s6] obtain pr where
    pr: "is_pr_create pr" and t6: "t6 = t5 @ [(pr, Inr out)]" by blast
  from s7 obtain o3 where
    t': "t' = t6 @ [(SandboxShutdown sid, Inr o3)]" and
    res: "res = \<lparr>success = True,
              data = Some \<lparr>prUrl = extract_pr_url out owner repoName, branchName = br,
                           sandboxId = sid, forked = Some fk,
                           forkUrl = (if fk then Some furl else None)\<rparr>,
              error = None\<rparr>"
    unfolding finish_eq_Inr by blast
  have x4: "x4 = ()" by simp
  show ?thesis
    apply (rule exI [of _ "n1 @ n2"], rule exI [of _ br], rule exI [of _ o1], rule exI [of _ b],
           rule exI [of _ o2], rule exI [of _ c1], rule exI [of _ pr], rule exI [of _ out],
           rule exI [of _ o3])
    using n1 n2 br t3 b t5 c1 pr t6 t' res s4 by simp
qed

lemma resolve_fork_Return:
  "resolve_fork owner user repoName url e t = (Inr (Return r), t') \<Longrightarrow> \<not> success r"
  by (auto simp: resolve_fork_def try_catch_eq return_eq bind_eq_Inr split: if_splits)

lemma connect_plain: "only_ops plain_op (call SandboxConnect)"
  by (intro only_intros) (simp add: plain_op_def)

lemma workflow_success:
  assumes "workflow opts tok owner repoName e t = (Inr res, t')" and "success res"
  shows "\<exists>sid a1 br o1 b o2 c1 pr out o3 fk furl.
       respond e t (SandboxResume ''wmwx2g'') = Inr sid
     \<and> t' = t @ [(SandboxResume ''wmwx2g'', Inr sid)] @ a1
              @ [(CommandsRun (GitCheckoutNewBranch repoName br), Inr o1)] @ b
              @ [(CommandsRun (GitAddAll repoName), Inr o2)] @ c1
              @ [(pr, Inr out), (SandboxShutdown sid, Inr o3)]
     \<and> list_all (\<lambda>ev. plain_op (fst ev)) a1
     \<and> list_all (\<lambda>ev. plain_op (fst ev)) c1
     \<and> br = ''code0-'' @ show_int (date_now e (t @ [(SandboxResume ''wmwx2g'', Inr sid)] @ a1))
     \<and> apply_changes repoName repoName (the_default [] (fileChanges opts)) e
          (t @ [(SandboxResume ''wmwx2g'', Inr sid)] @ a1
             @ [(CommandsRun (GitCheckoutNewBranch repoName br), Inr o1)])
        = (Inr (), t @ [(SandboxResume ''wmwx2g'', Inr sid)] @ a1
                     @ [(CommandsRun (GitCheckoutNewBranch repoName br), Inr o1)] @ b)
     \<and> is_pr_create pr
     \<and> res = \<lparr>success = True,
              data = Some \<lparr>prUrl = extract_pr_url out owner repoName, branchName = br,
                           sandboxId = sid, forked = Some fk,
                           forkUrl = (if fk then Some furl else None)\<rparr>,
              error = None\<rparr>"
proof -
  from assms(1) obtain sid t1 x2 t2 x3 t3 user t4 rf t5 where
    s1: "call (SandboxResume ''wmwx2g'') e t = (Inr sid, t1)" and
    s2: "call SandboxConnect e t1 = (Inr x2, t2)" and
    s3: "authenticate tok e t2 = (Inr x3, t3)" and
    s4: "get_authenticated_username e t3 = (Inr user, t4)" and
    s5: "resolve_fork owner user repoName (repoUrl opts) e t4 = (Inr rf, t5)" and
    s6: "(case rf of Return result \<Rightarrow> return result
          | Continue (workingRepoUrl, is_forked, fork_url) \<Rightarrow>
              after_fork opts sid owner repoName user workingRepoUrl is_forked fork_url) e t5
         = (Inr res, t')"
    unfolding workflow_def with_sandbox_def bind_eq_Inr by blast
  have "rf \<noteq> Return res"
    using s5 assms(2) resolve_fork_Return by blast
  with s6 obtain wurl fk furl where
    rf: "rf = Continue (wurl, fk, furl)" and
    s7: "after_fork opts sid owner repoName user wurl fk furl e t5 = (Inr res, t')"
    unfolding flow_case_eq_Inr by blast
  from s1 have sid: "respond e t (SandboxResume ''wmwx2g'') = Inr sid"
    and t1: "t1 = t @ [(SandboxResume ''wmwx2g'', Inr sid)]"
    by (simp_all add: call_eq)
  from only_opsD [OF connect_plain s2] obtain n2 where
    n2: "t2 = t1 @ n2" "list_all (\<lambda>ev. plain_op (fst ev)) n2" by blast
  from only_opsD [OF authenticate_plain s3] obtain n3 where
    n3: "t3 = t2 @ n3" "list_all (\<lambda>ev. plain_op (fst ev)) n3" by blast
  from only_opsD [OF username_plain s4] obtain n4 where
    n4: "t4 = t3 @ n4" "list_all (\<lambda>ev. plain_op (fst ev)) n4" by blast
  from only_opsD [OF resolve_fork_plain s5] obtain n5 where
    n5: "t5 = t4 @ n5" "list_all (\<lambda>ev. plain_op (fst ev)) n5" by blast
  from after_fork_Inr [OF s7] obtain a1 br o1 b o2 c1 pr out o3 where
    af: "t' = t5 @ a1 @ [(CommandsRun (GitCheckoutNewBranch repoName br), Inr o1)] @ b
              @ [(CommandsRun (GitAddAll repoName), Inr o2)] @ c1
              @ [(pr, Inr out), (SandboxShutdown sid, Inr o3)]"
      "list_all (\<lambda>ev. plain_op (fst ev)) a1"
      "list_all (\<lambda>ev. plain_op (fst ev)) c1"
      "br = ''code0-'' @ show_int (date_now e (t5 @ a1))"
      "apply_changes repoName repoName (the_default [] (fileChanges opts)) e
          (t5 @ a1 @ [(CommandsRun (GitCheckoutNewBranch repoName br), Inr o1)])
        = (Inr (), t5 @ a1 @ [(CommandsRun (GitCheckoutNewBranch repoName br), Inr o1)] @ b)"
      "is_pr_create pr"
      "res = \<lparr>success = True,
              data = Some \<lparr>prUrl = extract_pr_url out owner repoName, branchName = br,
                           sandboxId = sid, forked = Some fk,
                           forkUrl = (if fk then Some furl else None)\<rparr>,
              error = None\<rparr>"
    by blast
  show ?thesis
    apply (rule exI [of _ sid], rule exI [of _ "n2 @ n3 @ n4 @ n5 @ a1"], rule exI [of _ br],
           rule exI [of _ o1], rule exI [of _ b], rule exI [of _ o2], rule exI [of _ c1],
           rule exI [of _ pr], rule exI [of _ out], rule exI [of _ o3], rule exI [of _ fk],
           rule exI [of _ furl])
    using sid t1 n2 n3 n4 n5 af by simp
qed

lemma createGitHubPR_success:
  assumes "createGitHubPR opts e t = (Inr res, t')" and "success res"
  shows "\<exists>tok owner repoName. accessToken e = Some tok \<and> tok \<noteq> []
     \<and> parse_repo_url (repoUrl opts) = Some (owner, repoName)
     \<and> workflow opts tok owner repoName e t = (Inr res, t')"
  using assms
  by (auto simp: createGitHubPR_def try_catch_eq return_eq try_body_def
           split: option.splits if_splits)

section \<open>Evaluating concrete runs\<close>

lemmas workflow_defs =
  createGitHubPR_def try_body_def workflow_def with_sandbox_def after_fork_def finish_def create_pr_def
  commit_and_push_def apply_changes_def update_readme_def create_branch_def sync_main_def
  ensure_clone_def clone_fresh_def check_existing_def set_remotes_def test_directory_def
  resolve_fork_def get_authenticated_username_def authenticate_def the_default_def

lemmas string_defs =
  parse_repo_url_def repo_regex_def extract_pr_url_def pr_url_regex_def toLowerCase_def
  toLowerCase_char_def replace_git_suffix_def trim_def is_space_def remove_quotes_def
  show_int_def show_nat.simps digit_char_def rx_search.simps

lemma parse_own: "parse_repo_url ''https://github.com/Alice/Repo.git'' = Some (''alice'', ''repo'')"
  by (simp add: string_defs)

lemma run_own_result:
  "fst (createGitHubPR opts_own env_ok []) =
     Inr \<lparr>success = True,
          data = Some \<lparr>prUrl = ''https://github.com/alice/repo/pull/1'',
                       branchName = ''code0-1700000000000'', sandboxId = ''wmwx2g'',
                       forked = Some False, forkUrl = None\<rparr>,
          error = None\<rparr>"
  by (simp add: workflow_defs prog_apply env_ok_def opts_own_def reply_ok_def string_defs)

lemma run_own: "createGitHubPR opts_own env_ok [] = (Inr res_own, snd (createGitHubPR opts_own env_ok []))"
  by (simp add: prod_eq_iff run_own_result res_own_def)

lemma success_res_own: "success res_own"
  by (simp add: res_own_def)

section \<open>The matcher\<close>

lemma strip_prefix_eq_Some: "strip_prefix p s = Some r \<longleftrightarrow> s = p @ r"
  by (induction p s rule: strip_prefix.induct) auto

lemma strip_prefix_append: "strip_prefix p (p @ r) = Some r"
  by (simp add: strip_prefix_eq_Some)






subsection \<open>The pull-request pattern\<close>


subsection \<open>The repository pattern\<close>

lemma rx_match_Eos: "rx_match [Eos] s = (if s = [] then Some ([], []) else None)"
  by simp









subsection \<open>The leftmost match\<close>


lemma rx_search_Cons_skip:
  "rx_match re (c # cs) = None \<Longrightarrow> rx_search re (c # cs) = rx_search re cs"
  by (simp add: rx_search.simps)


lemma rx_search_skip:
  assumes "\<And>j. j < length pre \<Longrightarrow> rx_match re (drop j (pre @ rest)) = None"
  shows "rx_search re (pre @ rest) = rx_search re rest"
  using assms
proof (induction pre)
  case Nil
  then show ?case by simp
next
  case (Cons c pre)
  from Cons.prems [of 0] have "rx_match re (c # pre @ rest) = None" by simp
  then have "rx_search re ((c # pre) @ rest) = rx_search re (pre @ rest)"
    by (simp add: rx_search_Cons_skip)
  moreover have "rx_search re (pre @ rest) = rx_search re rest"
  proof (rule Cons.IH)
    fix j assume "j < length pre"
    then show "rx_match re (drop j (pre @ rest)) = None"
      using Cons.prems [of "Suc j"] by simp
  qed
  ultimately show ?case by simp
qed


subsection \<open>What the repository pattern accepts\<close>










subsection \<open>What the pull-request pattern finds\<close>






section \<open>Shape of the result\<close>

lemma resolve_fork_wf:
  "resolve_fork owner user repoName url e t = (Inr (Return res), t') \<Longrightarrow> well_formed_result res"
  by (auto simp: resolve_fork_def try_catch_eq return_eq bind_eq_Inr well_formed_result_def
           split: if_splits)

lemma after_fork_wf:
  "after_fork opts sid owner repoName user wurl fk furl e t = (Inr res, t')
     \<Longrightarrow> well_formed_result res"
  by (auto simp: after_fork_def bind_eq_Inr finish_eq_Inr well_formed_result_def)

lemma workflow_wf:
  "workflow opts tok owner repoName e t = (Inr res, t') \<Longrightarrow> well_formed_result res"
  by (auto simp: workflow_def with_sandbox_def bind_eq_Inr flow_case_eq_Inr
           dest: after_fork_wf resolve_fork_wf)

lemma try_body_wf: "try_body opts e t = (Inr res, t') \<Longrightarrow> well_formed_result res"
  by (auto simp: try_body_def return_eq well_formed_result_def
           split: option.splits if_splits dest: workflow_wf)

text \<open>
  C9. Every result of \<open>createGitHubPR\<close> is well formed: a success has the data (with the
  pull-request URL, the branch name and the sandbox id) and no error, and \<open>forkUrl\<close> is
  defined exactly when \<open>forked\<close> is true; a failure has an error and no data. The
  promise never rejects.
\<close>

theorem result_well_formed:
  "case fst (createGitHubPR opts e t) of
     Inr res \<Rightarrow> well_formed_result res
   | Inl err \<Rightarrow> False"
  by (cases "try_body opts e t")
     (auto simp: createGitHubPR_def try_catch_def return_def well_formed_result_def
           split: sum.splits dest: try_body_wf)

theorem result_well_formed_witness:
  "well_formed_result
     \<lparr>success = True,
      data = Some \<lparr>prUrl = ''https://github.com/alice/repo/pull/1'',
                   branchName = ''code0-1700000000000'', sandboxId = ''wmwx2g'',
                   forked = Some False, forkUrl = None\<rparr>,
      error = None\<rparr>"
  using result_well_formed [of opts_own env_ok "[]"] by (simp add: run_own_result)

section \<open>The sandbox\<close>

lemma snd_createGitHubPR: "snd (createGitHubPR opts e t) = snd (try_body opts e t)"
  by (cases "try_body opts e t")
     (auto simp: createGitHubPR_def try_catch_def return_def split: sum.splits)

lemma only_flow_case:
  "(\<And>r. only_ops P (a r)) \<Longrightarrow> (\<And>w f u. only_ops P (b w f u))
     \<Longrightarrow> only_ops P (case rf of Return r \<Rightarrow> a r | Continue (w, f, u) \<Rightarrow> b w f u)"
  by (cases rf) auto

lemmas stage_defs =
  after_fork_def finish_def create_pr_def commit_and_push_def apply_changes_def update_readme_def
  create_branch_def sync_main_def ensure_clone_def clone_fresh_def check_existing_def
  set_remotes_def test_directory_def resolve_fork_def get_authenticated_username_def
  authenticate_def

lemma with_sandbox_no_acquire:
  "only_ops (\<lambda>p. \<not> is_acquire_op p) (with_sandbox options token owner repoName sandbox_id)"
  unfolding with_sandbox_def stage_defs
  by (intro only_intros only_flow_case only_write_changes) simp_all

lemma try_body_accepted:
  assumes "accessToken e = Some tok" and "tok \<noteq> []"
    and "parse_repo_url (repoUrl opts) = Some (owner, repoName)"
  shows "try_body opts e t = workflow opts tok owner repoName e t"
  using assms by (simp add: try_body_def)

text \<open>
  C10. Once the token and the URL are accepted, the first call of every run resumes the
  sandbox \<open>wmwx2g\<close>, and no later call resumes or creates a sandbox. The \<open>sandboxId\<close> of
  a success is the id of the sandbox that this call returned, which is \<open>wmwx2g\<close> when
  the SDK gives back the sandbox asked for.
\<close>

theorem resumes_fixed_sandbox:
  assumes "accessToken e = Some tok" and "tok \<noteq> []"
    and "parse_repo_url (repoUrl opts) = Some (owner, repoName)"
  shows "\<exists>rest. issued (createGitHubPR opts) e t
             = (SandboxResume ''wmwx2g'', respond e t (SandboxResume ''wmwx2g'')) # rest
         \<and> list_all (\<lambda>ev. \<not> is_acquire_op (fst ev)) rest
         \<and> (\<forall>res. fst (createGitHubPR opts e t) = Inr res \<and> success res \<longrightarrow>
               (\<exists>d. data res = Some d
                  \<and> respond e t (SandboxResume ''wmwx2g'') = Inr (sandboxId d)
                  \<and> (resume_returns_requested e \<longrightarrow> sandboxId d = ''wmwx2g'')))"
proof -
  let ?ev = "(SandboxResume ''wmwx2g'', respond e t (SandboxResume ''wmwx2g''))"
  have body: "try_body opts e t = workflow opts tok owner repoName e t"
    using assms by (rule try_body_accepted)
  have trace: "\<exists>rest. snd (workflow opts tok owner repoName e t) = t @ ?ev # rest
      \<and> list_all (\<lambda>ev. \<not> is_acquire_op (fst ev)) rest"
  proof (cases "respond e t (SandboxResume ''wmwx2g'')")
    case (Inl err)
    then show ?thesis by (simp add: workflow_def bind_apply call_apply)
  next
    case (Inr sid)
    obtain r t2 where rest: "with_sandbox opts tok owner repoName sid e (t @ [?ev]) = (r, t2)"
      by (meson surj_pair)
    from only_opsD [OF with_sandbox_no_acquire rest] obtain new where
      new: "t2 = (t @ [?ev]) @ new" "list_all (\<lambda>ev. \<not> is_acquire_op (fst ev)) new" by blast
    have "workflow opts tok owner repoName e t = (r, t2)"
      using Inr rest by (simp add: workflow_def bind_apply call_apply)
    with new show ?thesis by simp
  qed
  then obtain rest where rest: "snd (workflow opts tok owner repoName e t) = t @ ?ev # rest"
    "list_all (\<lambda>ev. \<not> is_acquire_op (fst ev)) rest" by blast
  have iss: "issued (createGitHubPR opts) e t = ?ev # rest"
    by (simp add: issued_def snd_createGitHubPR body rest)
  have succ: "\<exists>d. data res = Some d
                  \<and> respond e t (SandboxResume ''wmwx2g'') = Inr (sandboxId d)
                  \<and> (resume_returns_requested e \<longrightarrow> sandboxId d = ''wmwx2g'')"
    if "fst (createGitHubPR opts e t) = Inr res" and "success res" for res
  proof -
    from that(1) have run: "createGitHubPR opts e t = (Inr res, snd (createGitHubPR opts e t))"
      by (simp add: prod_eq_iff)
    from createGitHubPR_success [OF run that(2)] assms
    have "workflow opts tok owner repoName e t = (Inr res, snd (createGitHubPR opts e t))"
      by auto
    from workflow_success [OF this that(2)] obtain sid d where
      sid: "respond e t (SandboxResume ''wmwx2g'') = Inr sid" and
      d: "data res = Some d" "sandboxId d = sid"
      by fastforce
    from sid have "resume_returns_requested e \<Longrightarrow> sid = ''wmwx2g''"
      unfolding resume_returns_requested_def by blast
    with sid d show ?thesis by simp
  qed
  from iss rest(2) succ show ?thesis by blast
qed

lemma env_ok_resume: "resume_returns_requested env_ok"
  by (simp add: resume_returns_requested_def env_ok_def reply_ok_def)

theorem resumes_fixed_sandbox_witness:
  "accessToken env_ok = Some ''ghp_token'' \<and> ''ghp_token'' \<noteq> []
   \<and> parse_repo_url (repoUrl opts_own) = Some (''alice'', ''repo'')
   \<and> hd (issued (createGitHubPR opts_own) env_ok []) = (SandboxResume ''wmwx2g'', Inr ''wmwx2g'')
   \<and> sandboxId (the (data (projr (fst (createGitHubPR opts_own env_ok []))))) = ''wmwx2g''"
proof -
  have h1: "accessToken env_ok = Some ''ghp_token''" by (simp add: env_ok_def)
  have h2: "''ghp_token'' \<noteq> []" by simp
  have h3: "parse_repo_url (repoUrl opts_own) = Some (''alice'', ''repo'')"
    by (simp add: opts_own_def parse_own)
  have r: "respond env_ok [] (SandboxResume ''wmwx2g'') = Inr ''wmwx2g''"
    by (simp add: env_ok_def reply_ok_def)
  from resumes_fixed_sandbox [OF h1 h2 h3, of "[]"] h1 h2 h3 r show ?thesis
    by (auto simp: run_own_result)
qed

section \<open>Calls of a whole run\<close>

lemma resolve_fork_eq:
  "resolve_fork owner user repoName url =
     return (Continue (if owner = user then (url, False, [])
                       else (fork_url_of user repoName, True, fork_url_of user repoName)))"
  by (simp add: resolve_fork_def try_catch_def return_def fun_eq_iff)


lemma after_fork_only:
  assumes "\<And>c. \<not> is_repo_view (CommandsRun c) \<Longrightarrow> P (CommandsRun c)" and "\<And>i. P (SandboxShutdown i)"
    and "only_ops P (apply_changes repoName repoName (the_default [] (fileChanges opts)))"
  shows "only_ops P (after_fork opts sid owner repoName user wurl fk furl)"
  unfolding after_fork_def finish_def create_pr_def commit_and_push_def create_branch_def
    sync_main_def ensure_clone_def clone_fresh_def check_existing_def set_remotes_def
    test_directory_def
  by (intro only_intros assms) simp_all

lemma with_sandbox_only:
  assumes "P SandboxConnect" and "\<And>c. \<not> is_repo_view (CommandsRun c) \<Longrightarrow> P (CommandsRun c)"
    and "\<And>i. P (SandboxShutdown i)"
    and "only_ops P (apply_changes repoName repoName (the_default [] (fileChanges opts)))"
  shows "only_ops P (with_sandbox opts tok owner repoName sid)"
  unfolding with_sandbox_def authenticate_def get_authenticated_username_def resolve_fork_eq
  by (intro only_intros only_flow_case after_fork_only assms) simp_all

lemma createGitHubPR_only_sandbox:
  assumes "P (SandboxResume ''wmwx2g'')"
    and "\<And>tok owner repoName sid. parse_repo_url (repoUrl opts) = Some (owner, repoName) \<Longrightarrow>
           only_ops P (with_sandbox opts tok owner repoName sid)"
  shows "only_ops P (createGitHubPR opts)"
  unfolding only_ops_def
proof (intro allI)
  fix e t
  have wf: "\<exists>new. snd (workflow opts tok owner repoName e t) = t @ new
      \<and> list_all (\<lambda>ev. P (fst ev)) new"
    if "parse_repo_url (repoUrl opts) = Some (owner, repoName)" for tok owner repoName
  proof -
    have "\<And>sid. only_ops P (with_sandbox opts tok owner repoName sid)"
      using that by (rule assms(2))
    then have "only_ops P (workflow opts tok owner repoName)"
      unfolding workflow_def by (intro only_intros assms(1))
    then show ?thesis unfolding only_ops_def by blast
  qed
  show "\<exists>new. snd (createGitHubPR opts e t) = t @ new \<and> list_all (\<lambda>ev. P (fst ev)) new"
    unfolding snd_createGitHubPR
    by (auto simp: try_body_def return_def split: option.splits intro: wf)
qed

lemma createGitHubPR_only:
  assumes "P (SandboxResume ''wmwx2g'')" and "P SandboxConnect"
    and "\<And>c. \<not> is_repo_view (CommandsRun c) \<Longrightarrow> P (CommandsRun c)"
    and "\<And>i. P (SandboxShutdown i)"
    and "\<And>owner repoName. parse_repo_url (repoUrl opts) = Some (owner, repoName) \<Longrightarrow>
           only_ops P (apply_changes repoName repoName (the_default [] (fileChanges opts)))"
  shows "only_ops P (createGitHubPR opts)"
  by (rule createGitHubPR_only_sandbox) (intro with_sandbox_only assms; assumption)+

lemma issued_only:
  assumes "only_ops P m"
  shows "list_all (\<lambda>ev. P (fst ev)) (issued m e t)"
proof -
  from assms obtain new where "snd (m e t) = t @ new" "list_all (\<lambda>ev. P (fst ev)) new"
    unfolding only_ops_def by blast
  then show ?thesis by (simp add: issued_def)
qed


section \<open>The pull-request URL\<close>



section \<open>The repository URL\<close>








section \<open>The change step\<close>

lemma plain_not_fs: "plain_op p \<Longrightarrow> \<not> is_fs_op p"
  by (simp add: plain_op_def)

lemma pr_create_not_fs: "is_pr_create p \<Longrightarrow> \<not> is_fs_op p"
  by (cases p) auto



lemma update_readme_Inr:
  assumes "update_readme d rn e T = (Inr u, T')"
  shows "\<exists>rr w mid.
       T' = T @ [(FsReadTextFile (readme_path d), rr),
                 (FsWriteTextFile (readme_path d)
                    (readme_written rn rr (date_iso e (T @ [(FsReadTextFile (readme_path d), rr)]))),
                  w)] @ mid
     \<and> ((\<exists>err. rr = Inl err) \<longrightarrow> returned w \<and> mid = [])
     \<and> (returned rr \<and> returned w \<longrightarrow> mid = [])"
proof -
  let ?rop = "FsReadTextFile (readme_path d)"
  let ?rr = "respond e T ?rop"
  let ?T1 = "T @ [(?rop, ?rr)]"
  let ?wop = "FsWriteTextFile (readme_path d) (readme_written rn ?rr (date_iso e ?T1))"
  let ?w = "respond e ?T1 ?wop"
  let ?T2 = "?T1 @ [(?wop, ?w)]"
  show ?thesis
  proof (cases ?rr)
    case (Inl err)
    with assms have "T' = ?T2 \<and> returned ?w"
      by (auto simp: update_readme_def prog_apply readme_written_def returned_def
               split: sum.splits)
    then have "T' = T @ [(?rop, ?rr), (?wop, ?w)] @ []
        \<and> ((\<exists>err. ?rr = Inl err) \<longrightarrow> returned ?w \<and> ([]::event list) = [])
        \<and> (returned ?rr \<and> returned ?w \<longrightarrow> ([]::event list) = [])"
      by simp
    then show ?thesis by blast
  next
    case (Inr readme)
    show ?thesis
    proof (cases ?w)
      case w: (Inr x)
      with assms Inr have "T' = ?T2"
        by (auto simp: update_readme_def prog_apply readme_written_def split: sum.splits)
      moreover have "returned ?w" using w by (simp add: returned_def)
      ultimately have "T' = T @ [(?rop, ?rr), (?wop, ?w)] @ []
          \<and> ((\<exists>err. ?rr = Inl err) \<longrightarrow> returned ?w \<and> ([]::event list) = [])
          \<and> (returned ?rr \<and> returned ?w \<longrightarrow> ([]::event list) = [])"
        by simp
      then show ?thesis by blast
    next
      case w: (Inl err)
      let ?again = "FsWriteTextFile (readme_path d)
                      (''# '' @ rn @ readme_create_section (date_iso e ?T2))"
      define mid where "mid = [(?again, respond e ?T2 ?again)]"
      have "snd (update_readme d rn e T) = ?T2 @ mid"
        using Inr w unfolding mid_def
        by (simp add: update_readme_def prog_apply readme_written_def split: sum.splits)
      with assms have "T' = T @ [(?rop, ?rr), (?wop, ?w)] @ mid" by simp
      moreover have "\<not> returned ?w" using w by (simp add: returned_def)
      moreover have "\<not> (\<exists>err. ?rr = Inl err)" using Inr by simp
      ultimately have "T' = T @ [(?rop, ?rr), (?wop, ?w)] @ mid
          \<and> ((\<exists>err. ?rr = Inl err) \<longrightarrow> returned ?w \<and> mid = [])
          \<and> (returned ?rr \<and> returned ?w \<longrightarrow> mid = [])"
        by blast
      then show ?thesis by blast
    qed
  qed
qed

text \<open>
  C6, as the code has it. With no file edits, a success has, between the creation of
  the branch and \<open>git add .\<close>, the read of \<open>./<repoDir>/README.md\<close> followed at once by
  a write of the same file. When the read returned, the text written is what was read,
  unchanged, followed by the "AI Agent Update" section of line 216 with the time stamp
  taken after the read; when that write returns, it is the only write. When the read
  threw, the text written is \<open># <repoName>\<close> followed by the section of line 220, which
  has the same heading, list and time-stamp line as the one of line 216 and another
  sentence; it is the only write. No other call of the run is a file call.
\<close>

theorem default_readme_update:
  assumes "fileChanges opts = None \<or> fileChanges opts = Some []"
    and "createGitHubPR opts e t = (Inr res, t')" and "success res"
  shows "\<exists>owner repoName pre br o1 rr w mid o2 post.
       parse_repo_url (repoUrl opts) = Some (owner, repoName)
     \<and> t' = t @ pre
            @ [(CommandsRun (GitCheckoutNewBranch repoName br), Inr o1),
               (FsReadTextFile (readme_path repoName), rr),
               (FsWriteTextFile (readme_path repoName)
                  (readme_written repoName rr
                     (date_iso e (t @ pre
                        @ [(CommandsRun (GitCheckoutNewBranch repoName br), Inr o1),
                           (FsReadTextFile (readme_path repoName), rr)]))),
                w)]
            @ mid @ [(CommandsRun (GitAddAll repoName), Inr o2)] @ post
     \<and> list_all (\<lambda>ev. \<not> is_fs_op (fst ev)) pre \<and> list_all (\<lambda>ev. \<not> is_fs_op (fst ev)) post
     \<and> ((\<exists>err. rr = Inl err) \<longrightarrow> returned w \<and> mid = [])
     \<and> (returned rr \<and> returned w \<longrightarrow> mid = [])"
proof -
  from createGitHubPR_success [OF assms(2,3)] obtain tok owner repoName where
    parse: "parse_repo_url (repoUrl opts) = Some (owner, repoName)" and
    wf: "workflow opts tok owner repoName e t = (Inr res, t')" by blast
  from workflow_success [OF wf assms(3)] obtain sid a1 br o1 b o2 c1 pr out o3 where
    t': "t' = t @ [(SandboxResume ''wmwx2g'', Inr sid)] @ a1
              @ [(CommandsRun (GitCheckoutNewBranch repoName br), Inr o1)] @ b
              @ [(CommandsRun (GitAddAll repoName), Inr o2)] @ c1
              @ [(pr, Inr out), (SandboxShutdown sid, Inr o3)]" and
    a1: "list_all (\<lambda>ev. plain_op (fst ev)) a1" and
    c1: "list_all (\<lambda>ev. plain_op (fst ev)) c1" and
    ap: "apply_changes repoName repoName (the_default [] (fileChanges opts)) e
          (t @ [(SandboxResume ''wmwx2g'', Inr sid)] @ a1
             @ [(CommandsRun (GitCheckoutNewBranch repoName br), Inr o1)])
        = (Inr (), t @ [(SandboxResume ''wmwx2g'', Inr sid)] @ a1
                     @ [(CommandsRun (GitCheckoutNewBranch repoName br), Inr o1)] @ b)" and
    pr: "is_pr_create pr"
    by blast
  let ?pre = "[(SandboxResume ''wmwx2g'', Inr sid)] @ a1"
  let ?co = "(CommandsRun (GitCheckoutNewBranch repoName br), Inr o1)"
  let ?T = "t @ ?pre @ [?co]"
  let ?post = "c1 @ [(pr, Inr out), (SandboxShutdown sid, Inr o3)]"
  from ap assms(1) have "update_readme repoName repoName e ?T = (Inr (), ?T @ b)"
    by (auto simp: apply_changes_def the_default_def)
  from update_readme_Inr [OF this] obtain rr w mid where
    b: "?T @ b = ?T @ [(FsReadTextFile (readme_path repoName), rr),
                 (FsWriteTextFile (readme_path repoName)
                    (readme_written repoName rr
                       (date_iso e (?T @ [(FsReadTextFile (readme_path repoName), rr)]))),
                  w)] @ mid" and
    c: "(\<exists>err. rr = Inl err) \<longrightarrow> returned w \<and> mid = []"
       "returned rr \<and> returned w \<longrightarrow> mid = []"
    by blast
  from b have b': "b = [(FsReadTextFile (readme_path repoName), rr),
                 (FsWriteTextFile (readme_path repoName)
                    (readme_written repoName rr
                       (date_iso e (?T @ [(FsReadTextFile (readme_path repoName), rr)]))),
                  w)] @ mid"
    by (simp only: same_append_eq)
  have eq: "t' = t @ ?pre
            @ [?co, (FsReadTextFile (readme_path repoName), rr),
               (FsWriteTextFile (readme_path repoName)
                  (readme_written repoName rr
                     (date_iso e (t @ ?pre @ [?co, (FsReadTextFile (readme_path repoName), rr)]))),
                w)]
            @ mid @ [(CommandsRun (GitAddAll repoName), Inr o2)] @ ?post"
    unfolding t' b' by simp
  have pre: "list_all (\<lambda>ev. \<not> is_fs_op (fst ev)) ?pre"
    using a1 by (auto simp: list_all_iff dest: plain_not_fs)
  have post: "list_all (\<lambda>ev. \<not> is_fs_op (fst ev)) ?post"
    using c1 pr by (auto simp: list_all_iff dest: plain_not_fs pr_create_not_fs)
  show ?thesis
    apply (rule exI [of _ owner], rule exI [of _ repoName], rule exI [of _ ?pre],
           rule exI [of _ br], rule exI [of _ o1], rule exI [of _ rr], rule exI [of _ w],
           rule exI [of _ mid], rule exI [of _ o2], rule exI [of _ ?post])
    using parse eq pre post c by - (intro conjI, assumption+)
qed

lemma run_default_result: "fst (createGitHubPR opts_default env_ok []) = Inr res_own"
  by (simp add: workflow_defs prog_apply env_ok_def opts_default_def reply_ok_def string_defs
        res_own_def)

lemma run_default:
  "createGitHubPR opts_default env_ok []
     = (Inr res_own, snd (createGitHubPR opts_default env_ok []))"
  by (simp add: prod_eq_iff run_default_result)

theorem default_readme_update_witness:
  "(fileChanges opts_default = None \<or> fileChanges opts_default = Some [])
   \<and> fst (createGitHubPR opts_default env_ok []) = Inr res_own \<and> success res_own
   \<and> (\<exists>owner repoName pre br o1 rr w mid o2 post.
       parse_repo_url (repoUrl opts_default) = Some (owner, repoName)
     \<and> snd (createGitHubPR opts_default env_ok []) = [] @ pre
            @ [(CommandsRun (GitCheckoutNewBranch repoName br), Inr o1),
               (FsReadTextFile (readme_path repoName), rr),
               (FsWriteTextFile (readme_path repoName)
                  (readme_written repoName rr
                     (date_iso env_ok ([] @ pre
                        @ [(CommandsRun (GitCheckoutNewBranch repoName br), Inr o1),
                           (FsReadTextFile (readme_path repoName), rr)]))),
                w)]
            @ mid @ [(CommandsRun (GitAddAll repoName), Inr o2)] @ post
     \<and> list_all (\<lambda>ev. \<not> is_fs_op (fst ev)) pre \<and> list_all (\<lambda>ev. \<not> is_fs_op (fst ev)) post
     \<and> ((\<exists>err. rr = Inl err) \<longrightarrow> returned w \<and> mid = [])
     \<and> (returned rr \<and> returned w \<longrightarrow> mid = []))"
proof -
  have h1: "fileChanges opts_default = None \<or> fileChanges opts_default = Some []"
    by (simp add: opts_default_def)
  from default_readme_update [OF h1 run_default success_res_own] h1 run_default_result
    success_res_own
  show ?thesis by - (intro conjI, assumption+)
qed

text \<open>
  The claim as it is written fails here: the read of the README throws, and the README
  written does not contain the section that is appended when the read returns.
\<close>

theorem default_readme_counterexample:
  "filter is_fs_op (map fst (snd (createGitHubPR opts_default env_no_readme [])))
     = [FsReadTextFile ''./repo/README.md'',
        FsWriteTextFile ''./repo/README.md''
          (''# repo'' @ readme_create_section ''2023-11-14T22:13:20.000Z'')]
   \<and> \<not> sublist (readme_update_section ''2023-11-14T22:13:20.000Z'')
         (''# repo'' @ readme_create_section ''2023-11-14T22:13:20.000Z'')"
proof
  show "filter is_fs_op (map fst (snd (createGitHubPR opts_default env_no_readme [])))
     = [FsReadTextFile ''./repo/README.md'',
        FsWriteTextFile ''./repo/README.md''
          (''# repo'' @ readme_create_section ''2023-11-14T22:13:20.000Z'')]"
    by (simp add: workflow_defs prog_apply env_no_readme_def env_ok_def opts_default_def
          reply_no_readme_def reply_ok_def string_defs readme_path_def)
  show "\<not> sublist (readme_update_section ''2023-11-14T22:13:20.000Z'')
         (''# repo'' @ readme_create_section ''2023-11-14T22:13:20.000Z'')"
    by (simp add: readme_update_section_def readme_create_section_def sublist_Cons_right)
qed

section \<open>The branch name\<close>

lemma digit_value_digit_char: "d < 10 \<Longrightarrow> digit_value (digit_char d) = Some d"
proof -
  assume "d < 10"
  then have "d = 0 \<or> d = 1 \<or> d = 2 \<or> d = 3 \<or> d = 4 \<or> d = 5 \<or> d = 6 \<or> d = 7 \<or> d = 8 \<or> d = 9"
    by arith
  then show ?thesis
    by (elim disjE) (simp_all add: digit_value_def digit_char_def)
qed

lemma show_nat_digits:
  "show_nat n \<noteq> [] \<and> list_all (\<lambda>c. digit_value c \<noteq> None) (show_nat n)
   \<and> foldl (\<lambda>a c. 10 * a + the_default 0 (digit_value c)) 0 (show_nat n) = n"
proof (induction n rule: show_nat.induct)
  case (1 n)
  show ?case
  proof (cases "n < 10")
    case True
    then show ?thesis
      by (subst (1 2 3) show_nat.simps) (simp add: digit_value_digit_char the_default_def)
  next
    case False
    have d: "digit_value (digit_char (n mod 10)) = Some (n mod 10)"
      by (rule digit_value_digit_char) simp
    from False 1 have ih: "list_all (\<lambda>c. digit_value c \<noteq> None) (show_nat (n div 10))"
      "foldl (\<lambda>a c. 10 * a + the_default 0 (digit_value c)) 0 (show_nat (n div 10)) = n div 10"
      by simp_all
    from False ih d show ?thesis
      by (subst (1 2 3) show_nat.simps) (simp add: the_default_def)
  qed
qed

lemma read_nat_show_nat: "read_nat (show_nat n) = Some n"
  using show_nat_digits [of n] by (simp add: read_nat_def)

lemma digit_value_minus: "digit_value (CHR ''-'') = None"
  by (simp add: digit_value_def)

lemma read_int_show_int: "read_int (show_int i) = Some i"
proof (cases "i < 0")
  case True
  then show ?thesis by (simp add: show_int_def read_int_def read_nat_show_nat)
next
  case False
  obtain c cs where s: "show_nat (nat i) = c # cs"
    using show_nat_digits [of "nat i"] by (cases "show_nat (nat i)") auto
  then have "digit_value c \<noteq> None" using show_nat_digits [of "nat i"] by simp
  then have "c \<noteq> CHR ''-''" using digit_value_minus by auto
  with False s read_nat_show_nat [of "nat i"] show ?thesis
    by (simp add: show_int_def read_int_def)
qed

lemma branch_integer_code0: "branch_integer (''code0-'' @ show_int i) = Some i"
  using strip_prefix_append [of "''code0-''" "show_int i"] read_int_show_int [of i]
  by (simp only: branch_integer_def option.case)

lemma with_sandbox_branch_names:
  "only_ops (\<lambda>p. \<forall>d b. p = CommandsRun (GitCheckoutNewBranch d b) \<longrightarrow> branch_integer b \<noteq> None)
     (with_sandbox opts tok owner repoName sid)"
  unfolding with_sandbox_def stage_defs
  by (intro only_intros only_flow_case only_write_changes)
     (simp_all add: branch_integer_code0 [simplified])

text \<open>
  C7, as the code has it. Every branch a run creates is named \<open>code0-<integer>\<close>, and in
  a success the integer is the reading of \<open>Date.now()\<close> taken just before the branch is
  created. For two calls one after the other, the second reading is taken after the
  first, so the integers are non-decreasing whenever the clock does not go back; the
  code has nothing else that orders them.
\<close>

theorem branch_name_integer:
  assumes "createGitHubPR opts1 e t = (Inr res1, t1)" and "success res1"
    and "createGitHubPR opts2 e t1 = (Inr res2, t2)" and "success res2"
  shows "list_all (\<lambda>ev. \<forall>d b. fst ev = CommandsRun (GitCheckoutNewBranch d b)
                        \<longrightarrow> branch_integer b \<noteq> None) (issued (createGitHubPR opts1) e t)
     \<and> (\<exists>d1 d2 h1 h2. data res1 = Some d1 \<and> data res2 = Some d2
          \<and> branchName d1 = ''code0-'' @ show_int (date_now e h1)
          \<and> branchName d2 = ''code0-'' @ show_int (date_now e h2)
          \<and> branch_integer (branchName d1) = Some (date_now e h1)
          \<and> branch_integer (branchName d2) = Some (date_now e h2)
          \<and> prefix t h1 \<and> prefix h1 t1 \<and> prefix t1 h2 \<and> prefix h2 t2
          \<and> (clock_monotone e \<longrightarrow> date_now e h1 \<le> date_now e h2))"
proof
  have "only_ops (\<lambda>p. \<forall>d b. p = CommandsRun (GitCheckoutNewBranch d b) \<longrightarrow> branch_integer b \<noteq> None)
          (createGitHubPR opts1)"
    by (rule createGitHubPR_only_sandbox) (simp, rule with_sandbox_branch_names)
  then show "list_all (\<lambda>ev. \<forall>d b. fst ev = CommandsRun (GitCheckoutNewBranch d b)
                        \<longrightarrow> branch_integer b \<noteq> None) (issued (createGitHubPR opts1) e t)"
    by (rule issued_only)
next
  have one: "\<exists>d h. data res = Some d \<and> branchName d = ''code0-'' @ show_int (date_now e h)
      \<and> prefix s h \<and> prefix h s'"
    if "createGitHubPR opts e s = (Inr res, s')" and "success res" for opts s res s'
  proof -
    from createGitHubPR_success [OF that] obtain tok owner repoName where
      wf: "workflow opts tok owner repoName e s = (Inr res, s')" by blast
    from workflow_success [OF wf that(2)] obtain sid a1 br o1 b o2 c1 pr out o3 fk furl where
      s': "s' = s @ [(SandboxResume ''wmwx2g'', Inr sid)] @ a1
              @ [(CommandsRun (GitCheckoutNewBranch repoName br), Inr o1)] @ b
              @ [(CommandsRun (GitAddAll repoName), Inr o2)] @ c1
              @ [(pr, Inr out), (SandboxShutdown sid, Inr o3)]" and
      br: "br = ''code0-'' @ show_int (date_now e (s @ [(SandboxResume ''wmwx2g'', Inr sid)] @ a1))" and
      res: "res = \<lparr>success = True,
              data = Some \<lparr>prUrl = extract_pr_url out owner repoName, branchName = br,
                           sandboxId = sid, forked = Some fk,
                           forkUrl = (if fk then Some furl else None)\<rparr>,
              error = None\<rparr>"
      by blast
    let ?h = "s @ [(SandboxResume ''wmwx2g'', Inr sid)] @ a1"
    let ?d = "\<lparr>prUrl = extract_pr_url out owner repoName, branchName = br,
               sandboxId = sid, forked = Some fk, forkUrl = (if fk then Some furl else None)\<rparr>"
    have "data res = Some ?d" using res by simp
    moreover have "branchName ?d = ''code0-'' @ show_int (date_now e ?h)" using br by simp
    moreover have "prefix s ?h" by simp
    moreover have "prefix ?h s'" unfolding s' by (simp add: prefix_def)
    ultimately show ?thesis by blast
  qed
  from one [OF assms(1,2)] obtain d1 h1 where
    r1: "data res1 = Some d1" "branchName d1 = ''code0-'' @ show_int (date_now e h1)"
      "prefix t h1" "prefix h1 t1" by blast
  from one [OF assms(3,4)] obtain d2 h2 where
    r2: "data res2 = Some d2" "branchName d2 = ''code0-'' @ show_int (date_now e h2)"
      "prefix t1 h2" "prefix h2 t2" by blast
  have i1: "branch_integer (branchName d1) = Some (date_now e h1)"
    unfolding r1(2) by (rule branch_integer_code0)
  have i2: "branch_integer (branchName d2) = Some (date_now e h2)"
    unfolding r2(2) by (rule branch_integer_code0)
  have "prefix h1 h2" using r1(4) r2(3) by (rule prefix_order.trans)
  then have mono: "clock_monotone e \<longrightarrow> date_now e h1 \<le> date_now e h2"
    unfolding clock_monotone_def by blast
  from r1 r2 i1 i2 mono show "\<exists>d1 d2 h1 h2. data res1 = Some d1 \<and> data res2 = Some d2
          \<and> branchName d1 = ''code0-'' @ show_int (date_now e h1)
          \<and> branchName d2 = ''code0-'' @ show_int (date_now e h2)
          \<and> branch_integer (branchName d1) = Some (date_now e h1)
          \<and> branch_integer (branchName d2) = Some (date_now e h2)
          \<and> prefix t h1 \<and> prefix h1 t1 \<and> prefix t1 h2 \<and> prefix h2 t2
          \<and> (clock_monotone e \<longrightarrow> date_now e h1 \<le> date_now e h2)"
    by blast
qed

lemma run_own_again_result:
  "fst (createGitHubPR opts_own env_ok (snd (createGitHubPR opts_own env_ok []))) = Inr res_own"
  by (simp add: workflow_defs prog_apply env_ok_def opts_own_def reply_ok_def string_defs
        res_own_def)

lemma env_ok_clock: "clock_monotone env_ok"
  by (simp add: clock_monotone_def env_ok_def)

theorem branch_name_integer_witness:
  "fst (createGitHubPR opts_own env_ok []) = Inr res_own \<and> success res_own
   \<and> fst (createGitHubPR opts_own env_ok (snd (createGitHubPR opts_own env_ok []))) = Inr res_own
   \<and> clock_monotone env_ok
   \<and> branch_integer (branchName (the (data res_own))) = Some 1700000000000"
proof -
  have run2: "createGitHubPR opts_own env_ok (snd (createGitHubPR opts_own env_ok []))
      = (Inr res_own,
         snd (createGitHubPR opts_own env_ok (snd (createGitHubPR opts_own env_ok []))))"
    by (simp add: prod_eq_iff run_own_again_result)
  from branch_name_integer [OF run_own success_res_own run2 success_res_own]
  obtain d1 h1 where "data res_own = Some d1"
    "branchName d1 = ''code0-'' @ show_int (date_now env_ok h1)"
    "branch_integer (branchName d1) = Some (date_now env_ok h1)" by blast
  then have "branch_integer (branchName (the (data res_own))) = Some 1700000000000"
    by (simp add: env_ok_def)
  with run_own_result run_own_again_result success_res_own env_ok_clock show ?thesis
    by (simp add: res_own_def)
qed

text \<open>
  The claim as it is written fails here: the system clock is set back between two
  calls that both succeed, and the integer of the later branch name is the smaller
  one.
\<close>

theorem branch_name_counterexample:
  "map_option branchName (data (projr (fst (createGitHubPR opts_own env_clock_back []))))
     = Some ''code0-1700000005000''
   \<and> map_option branchName
       (data (projr (fst (createGitHubPR opts_own env_clock_back
                            (snd (createGitHubPR opts_own env_clock_back []))))))
     = Some ''code0-1700000000000''
   \<and> branch_integer ''code0-1700000005000'' = Some 1700000005000
   \<and> branch_integer ''code0-1700000000000'' = Some 1700000000000
   \<and> \<not> (1700000005000 \<le> (1700000000000::int))"
proof (intro conjI)
  show "map_option branchName (data (projr (fst (createGitHubPR opts_own env_clock_back []))))
     = Some ''code0-1700000005000''"
    by (simp add: workflow_defs prog_apply env_clock_back_def env_ok_def opts_own_def
          reply_ok_def string_defs)
  show "map_option branchName
       (data (projr (fst (createGitHubPR opts_own env_clock_back
                            (snd (createGitHubPR opts_own env_clock_back []))))))
     = Some ''code0-1700000000000''"
    by (simp add: workflow_defs prog_apply env_clock_back_def env_ok_def opts_own_def
          reply_ok_def string_defs)
  show "branch_integer ''code0-1700000005000'' = Some 1700000005000"
    using branch_integer_code0 [of 1700000005000]
    by (simp add: show_int_def show_nat.simps digit_char_def)
  show "branch_integer ''code0-1700000000000'' = Some 1700000000000"
    using branch_integer_code0 [of 1700000000000]
    by (simp add: show_int_def show_nat.simps digit_char_def)
  show "\<not> (1700000005000 \<le> (1700000000000::int))" by simp
qed

section \<open>The fork probe\<close>

lemma probe_never_issued: "list_all (\<lambda>ev. \<not> is_repo_view (fst ev)) (issued (createGitHubPR opts) e t)"
proof (rule issued_only, rule createGitHubPR_only)
  fix owner repoName
  have "only_ops is_fs_op (apply_changes repoName repoName (the_default [] (fileChanges opts)))"
    by (rule apply_changes_fs)
  then show "only_ops (\<lambda>p. \<not> is_repo_view p)
      (apply_changes repoName repoName (the_default [] (fileChanges opts)))"
    by (rule only_ops_mono) (case_tac p, simp_all)
qed simp_all

text \<open>
  C2, at the failing input. The token is set, the URL names a repository of \<open>alice\<close>,
  the signed-in user is \<open>bob\<close> and \<open>gh repo view bob/repo\<close> would fail. The run makes no
  call of \<open>gh repo view\<close> and ends in a success on the assumed fork.
\<close>

theorem fork_probe_not_run:
  "respond env_no_fork [] (CommandsRun (GhRepoView ''bob'' ''repo''))
     = Inl (JsError ''GraphQL: Could not resolve to a Repository with the name bob/repo.'')
   \<and> fst (createGitHubPR opts_own env_no_fork []) = Inr res_forked
   \<and> filter is_repo_view (map fst (snd (createGitHubPR opts_own env_no_fork []))) = []"
  by (simp add: workflow_defs prog_apply env_no_fork_def env_ok_def opts_own_def
        reply_no_fork_def reply_ok_def string_defs res_forked_def fork_url_of_def)

section \<open>The error boundary\<close>

lemma raises_lastD:
  assumes "raises_last m" and "m e t = (r, t')"
  shows "\<exists>new. t' = t @ new \<and> (\<forall>err. r = Inl err \<longrightarrow> new \<noteq> [] \<and> snd (last new) = Inl err)"
  using assms unfolding raises_last_def by (metis fst_conv snd_conv)

lemma raises_return: "raises_last (return x)"
  by (simp add: raises_last_def return_def)

lemma raises_Date_now: "raises_last Date_now"
  by (simp add: raises_last_def Date_now_def)

lemma raises_Date_toISOString: "raises_last Date_toISOString"
  by (simp add: raises_last_def Date_toISOString_def)

lemma raises_call: "raises_last (call p)"
  by (simp add: raises_last_def call_def Let_def)

lemma raises_run: "raises_last (run c)"
  by (simp add: run_def raises_call)

lemma raises_bind:
  assumes "raises_last m" and "\<And>x. raises_last (f x)"
  shows "raises_last (bind m f)"
  unfolding raises_last_def
proof (intro allI)
  fix e t
  obtain r t1 where m: "m e t = (r, t1)" by (cases "m e t")
  from raises_lastD [OF assms(1) m] obtain n1 where
    n1: "t1 = t @ n1" "\<forall>err. r = Inl err \<longrightarrow> n1 \<noteq> [] \<and> snd (last n1) = Inl err" by blast
  show "\<exists>new. snd (bind m f e t) = t @ new
      \<and> (\<forall>err. fst (bind m f e t) = Inl err \<longrightarrow> new \<noteq> [] \<and> snd (last new) = Inl err)"
  proof (cases r)
    case (Inl err)
    with m n1 show ?thesis by (simp add: bind_apply)
  next
    case (Inr x)
    obtain r2 t2 where f: "f x e t1 = (r2, t2)" by (cases "f x e t1")
    from raises_lastD [OF assms(2) f] obtain n2 where
      n2: "t2 = t1 @ n2" "\<forall>err. r2 = Inl err \<longrightarrow> n2 \<noteq> [] \<and> snd (last n2) = Inl err" by blast
    have "snd (bind m f e t) = t @ (n1 @ n2)"
      using m f Inr n1(1) n2(1) by (simp add: bind_apply)
    moreover have "\<forall>err. fst (bind m f e t) = Inl err \<longrightarrow> n1 @ n2 \<noteq> [] \<and> snd (last (n1 @ n2)) = Inl err"
      using m f Inr n2(2) by (simp add: bind_apply)
    ultimately show ?thesis by blast
  qed
qed

lemma raises_try_catch:
  assumes "raises_last m" and "\<And>err. raises_last (h err)"
  shows "raises_last (try_catch m h)"
  unfolding raises_last_def
proof (intro allI)
  fix e t
  obtain r t1 where m: "m e t = (r, t1)" by (cases "m e t")
  from raises_lastD [OF assms(1) m] obtain n1 where n1: "t1 = t @ n1" by blast
  show "\<exists>new. snd (try_catch m h e t) = t @ new
      \<and> (\<forall>err. fst (try_catch m h e t) = Inl err \<longrightarrow> new \<noteq> [] \<and> snd (last new) = Inl err)"
  proof (cases r)
    case (Inr x)
    with m n1 show ?thesis by (simp add: try_catch_apply)
  next
    case (Inl err)
    obtain r2 t2 where h: "h err e t1 = (r2, t2)" by (cases "h err e t1")
    from raises_lastD [OF assms(2) h] obtain n2 where
      n2: "t2 = t1 @ n2" "\<forall>err. r2 = Inl err \<longrightarrow> n2 \<noteq> [] \<and> snd (last n2) = Inl err" by blast
    have "snd (try_catch m h e t) = t @ (n1 @ n2)"
      using m h Inl n1 n2(1) by (simp add: try_catch_apply)
    moreover have "\<forall>err. fst (try_catch m h e t) = Inl err
        \<longrightarrow> n1 @ n2 \<noteq> [] \<and> snd (last (n1 @ n2)) = Inl err"
      using m h Inl n2(2) by (simp add: try_catch_apply)
    ultimately show ?thesis by blast
  qed
qed

lemma raises_exec: "raises_last (exec c)"
  by (simp add: exec_def raises_bind raises_run raises_return)

lemma raises_if: "(c \<Longrightarrow> raises_last a) \<Longrightarrow> (\<not> c \<Longrightarrow> raises_last b) \<Longrightarrow> raises_last (if c then a else b)"
  by simp

lemma raises_write_changes: "raises_last (write_changes repoDir changes)"
  by (induction changes) (simp_all add: raises_return raises_bind raises_call)

lemma raises_flow_case:
  "(\<And>r. raises_last (a r)) \<Longrightarrow> (\<And>w f u. raises_last (b w f u))
     \<Longrightarrow> raises_last (case rf of Return r \<Rightarrow> a r | Continue (w, f, u) \<Rightarrow> b w f u)"
  by (cases rf) auto

lemmas raises_intros =
  raises_return raises_Date_now raises_Date_toISOString raises_call raises_run raises_exec
  raises_bind raises_try_catch raises_if raises_write_changes raises_flow_case

lemma workflow_raises: "raises_last (workflow opts tok owner repoName)"
  unfolding workflow_def with_sandbox_def stage_defs
  by (intro raises_intros)

lemma try_body_raises:
  assumes "try_body opts e t = (Inl err, t')"
  shows "\<exists>pre p. t' = t @ pre @ [(p, Inl err)]"
proof -
  from assms obtain tok owner repoName where
    "workflow opts tok owner repoName e t = (Inl err, t')"
    by (auto simp: try_body_def return_def split: option.splits if_splits)
  from raises_lastD [OF workflow_raises this] obtain new where
    new: "t' = t @ new" "new \<noteq> []" "snd (last new) = Inl err" by blast
  then have "new = butlast new @ [(fst (last new), Inl err)]"
    by (metis append_butlast_last_id prod.collapse)
  with new(1) show ?thesis by metis
qed

lemma workflow_Inr_success:
  assumes "workflow opts tok owner repoName e t = (Inr res, t')"
  shows "success res"
  using assms
  by (auto simp: workflow_def with_sandbox_def bind_eq_Inr resolve_fork_eq return_eq
           after_fork_def finish_eq_Inr split: if_splits)

lemma try_body_Inr:
  assumes "try_body opts e t = (Inr res, t')"
  shows "(t' = t \<and> \<not> success res
          \<and> (error res = Some ''GITHUB_PERSONAL_ACCESS_TOKEN environment variable is required''
             \<or> error res = Some ''Invalid GitHub repository URL format''))
       \<or> (success res \<and> (\<exists>pre p x. t' = t @ pre @ [(p, Inr x)]))"
proof (cases "success res")
  case True
  obtain pre p x where "t' = t @ pre @ [(p, Inr x)]"
  proof -
    have run: "createGitHubPR opts e t = (Inr res, t')"
      using assms by (simp add: createGitHubPR_def try_catch_apply)
    from createGitHubPR_success [OF run True] obtain tok owner repoName where
      "workflow opts tok owner repoName e t = (Inr res, t')" by blast
    from workflow_success [OF this True] obtain sid a1 br o1 b o2 c1 pr out o3 where
      "t' = t @ [(SandboxResume ''wmwx2g'', Inr sid)] @ a1
              @ [(CommandsRun (GitCheckoutNewBranch repoName br), Inr o1)] @ b
              @ [(CommandsRun (GitAddAll repoName), Inr o2)] @ c1
              @ [(pr, Inr out), (SandboxShutdown sid, Inr o3)]" by blast
    then have "t' = t @ ([(SandboxResume ''wmwx2g'', Inr sid)] @ a1
              @ [(CommandsRun (GitCheckoutNewBranch repoName br), Inr o1)] @ b
              @ [(CommandsRun (GitAddAll repoName), Inr o2)] @ c1
              @ [(pr, Inr out)]) @ [(SandboxShutdown sid, Inr o3)]" by simp
    then show ?thesis by (rule that)
  qed
  with True show ?thesis by blast
next
  case False
  with assms show ?thesis
    by (auto simp: try_body_def return_eq split: option.splits if_splits
             dest: workflow_Inr_success)
qed

lemma thrown_message_nonempty: "err \<noteq> JsError [] \<Longrightarrow> d \<noteq> [] \<Longrightarrow> thrown_message err d \<noteq> []"
  by (cases err) (simp_all add: thrown_message_def)

text \<open>
  C1, as the code has it. The promise of \<open>createGitHubPR\<close> never rejects. When the last
  call of a run threw, which is what an error that no inner \<open>catch\<close> handles does, the
  result is the failure whose error is the message of the thrown \<open>Error\<close>, or
  \<open>Unknown error occurred\<close> for a thrown value that is no \<open>Error\<close>; that string is
  non-empty unless the thrown \<open>Error\<close> has an empty message. Every failure is of this
  kind or one of the two validation failures, which make no call.
\<close>

theorem error_boundary:
  "(\<exists>res. fst (createGitHubPR opts e t) = Inr res)
   \<and> (\<forall>pre p err. snd (createGitHubPR opts e t) = t @ pre @ [(p, Inl err)] \<longrightarrow>
        fst (createGitHubPR opts e t)
          = Inr \<lparr>success = False, data = None,
                 error = Some (thrown_message err ''Unknown error occurred'')\<rparr>
        \<and> (err \<noteq> JsError [] \<longrightarrow> thrown_message err ''Unknown error occurred'' \<noteq> []))
   \<and> (\<forall>res. fst (createGitHubPR opts e t) = Inr res \<and> \<not> success res \<longrightarrow>
        (snd (createGitHubPR opts e t) = t
           \<and> (error res = Some ''GITHUB_PERSONAL_ACCESS_TOKEN environment variable is required''
              \<or> error res = Some ''Invalid GitHub repository URL format''))
        \<or> (\<exists>pre p err. snd (createGitHubPR opts e t) = t @ pre @ [(p, Inl err)]
              \<and> error res = Some (thrown_message err ''Unknown error occurred'')
              \<and> data res = None))"
proof -
  obtain r t' where body: "try_body opts e t = (r, t')" by (meson surj_pair)
  show ?thesis
  proof (cases r)
    case (Inl err0)
    let ?res = "\<lparr>success = False, data = None,
                 error = Some (thrown_message err0 ''Unknown error occurred'')\<rparr>"
    have run: "createGitHubPR opts e t = (Inr ?res, t')"
      using body Inl by (simp add: createGitHubPR_def try_catch_apply return_apply)
    from try_body_raises [OF body [unfolded Inl]] obtain pre0 p0 where
      t': "t' = t @ pre0 @ [(p0, Inl err0)]" by blast
    have same: "err = err0" if "t' = t @ pre @ [(p, Inl err)]" for pre p err
    proof -
      from that t' have "pre @ [(p, Inl err)] = pre0 @ [(p0, Inl err0)]" by simp
      then have "last (pre @ [(p, Inl err)]) = last (pre0 @ [(p0, Inl err0)])" by (rule arg_cong)
      then show ?thesis by simp
    qed
    have c1: "\<exists>res. fst (createGitHubPR opts e t) = Inr res" using run by simp
    have c2: "\<forall>pre p err. snd (createGitHubPR opts e t) = t @ pre @ [(p, Inl err)] \<longrightarrow>
        fst (createGitHubPR opts e t)
          = Inr \<lparr>success = False, data = None,
                 error = Some (thrown_message err ''Unknown error occurred'')\<rparr>
        \<and> (err \<noteq> JsError [] \<longrightarrow> thrown_message err ''Unknown error occurred'' \<noteq> [])"
    proof (intro allI impI)
      fix pre p err
      assume "snd (createGitHubPR opts e t) = t @ pre @ [(p, Inl err)]"
      with run have "err = err0" by (simp add: same)
      moreover have "err0 \<noteq> JsError [] \<longrightarrow> thrown_message err0 ''Unknown error occurred'' \<noteq> []"
        by (cases err0) (simp_all add: thrown_message_def)
      ultimately show "fst (createGitHubPR opts e t)
          = Inr \<lparr>success = False, data = None,
                 error = Some (thrown_message err ''Unknown error occurred'')\<rparr>
        \<and> (err \<noteq> JsError [] \<longrightarrow> thrown_message err ''Unknown error occurred'' \<noteq> [])"
        using run by simp
    qed
    have c3: "\<forall>res. fst (createGitHubPR opts e t) = Inr res \<and> \<not> success res \<longrightarrow>
        (snd (createGitHubPR opts e t) = t
           \<and> (error res = Some ''GITHUB_PERSONAL_ACCESS_TOKEN environment variable is required''
              \<or> error res = Some ''Invalid GitHub repository URL format''))
        \<or> (\<exists>pre p err. snd (createGitHubPR opts e t) = t @ pre @ [(p, Inl err)]
              \<and> error res = Some (thrown_message err ''Unknown error occurred'')
              \<and> data res = None)"
      using run t' by auto
    from c1 c2 c3 show ?thesis by (intro conjI)
  next
    case (Inr res0)
    have run: "createGitHubPR opts e t = (Inr res0, t')"
      using body Inr by (simp add: createGitHubPR_def try_catch_apply)
    from try_body_Inr [OF body [unfolded Inr]] have shape:
      "(t' = t \<and> \<not> success res0
          \<and> (error res0 = Some ''GITHUB_PERSONAL_ACCESS_TOKEN environment variable is required''
             \<or> error res0 = Some ''Invalid GitHub repository URL format''))
       \<or> (success res0 \<and> (\<exists>pre p x. t' = t @ pre @ [(p, Inr x)]))" .
    have no_throw: "t' \<noteq> t @ pre @ [(p, Inl err)]" for pre p err
    proof
      assume a: "t' = t @ pre @ [(p, Inl err)]"
      from shape have "t' = t \<or> (\<exists>pre p x. t' = t @ pre @ [(p, Inr x)])" by blast
      then show False
      proof (elim disjE exE)
        assume "t' = t"
        with a show False by simp
      next
        fix pre1 p1 x
        assume "t' = t @ pre1 @ [(p1, Inr x)]"
        with a have "pre @ [(p, Inl err)] = pre1 @ [(p1, Inr x)]" by simp
        then have "last (pre @ [(p, Inl err)]) = last (pre1 @ [(p1, Inr x)])" by (rule arg_cong)
        then show False by simp
      qed
    qed
    have c1: "\<exists>res. fst (createGitHubPR opts e t) = Inr res" using run by simp
    have c2: "\<forall>pre p err. snd (createGitHubPR opts e t) = t @ pre @ [(p, Inl err)] \<longrightarrow>
        fst (createGitHubPR opts e t)
          = Inr \<lparr>success = False, data = None,
                 error = Some (thrown_message err ''Unknown error occurred'')\<rparr>
        \<and> (err \<noteq> JsError [] \<longrightarrow> thrown_message err ''Unknown error occurred'' \<noteq> [])"
      using run no_throw by simp
    have c3: "\<forall>res. fst (createGitHubPR opts e t) = Inr res \<and> \<not> success res \<longrightarrow>
        (snd (createGitHubPR opts e t) = t
           \<and> (error res = Some ''GITHUB_PERSONAL_ACCESS_TOKEN environment variable is required''
              \<or> error res = Some ''Invalid GitHub repository URL format''))
        \<or> (\<exists>pre p err. snd (createGitHubPR opts e t) = t @ pre @ [(p, Inl err)]
              \<and> error res = Some (thrown_message err ''Unknown error occurred'')
              \<and> data res = None)"
      using run shape by auto
    from c1 c2 c3 show ?thesis by (intro conjI)
  qed
qed

lemma run_sandbox_down:
  "createGitHubPR opts_own env_sandbox_down []
     = (Inr \<lparr>success = False, data = None, error = Some ''Sandbox not found''\<rparr>,
        [(SandboxResume ''wmwx2g'', Inl (JsError ''Sandbox not found''))])"
  by (simp add: workflow_defs prog_apply env_sandbox_down_def env_ok_def opts_own_def string_defs
        thrown_message_def)

theorem error_boundary_witness:
  "snd (createGitHubPR opts_own env_sandbox_down [])
     = [] @ [] @ [(SandboxResume ''wmwx2g'', Inl (JsError ''Sandbox not found''))]
   \<and> JsError ''Sandbox not found'' \<noteq> JsError []
   \<and> fst (createGitHubPR opts_own env_sandbox_down [])
       = Inr \<lparr>success = False, data = None,
              error = Some (thrown_message (JsError ''Sandbox not found'') ''Unknown error occurred'')\<rparr>
   \<and> thrown_message (JsError ''Sandbox not found'') ''Unknown error occurred'' \<noteq> []"
proof -
  have h1: "snd (createGitHubPR opts_own env_sandbox_down [])
     = [] @ [] @ [(SandboxResume ''wmwx2g'', Inl (JsError ''Sandbox not found''))]"
    by (simp add: run_sandbox_down)
  have h2: "JsError ''Sandbox not found'' \<noteq> JsError []" by simp
  from error_boundary [of opts_own env_sandbox_down "[]"] h1 h2
  have "fst (createGitHubPR opts_own env_sandbox_down [])
       = Inr \<lparr>success = False, data = None,
              error = Some (thrown_message (JsError ''Sandbox not found'') ''Unknown error occurred'')\<rparr>
     \<and> thrown_message (JsError ''Sandbox not found'') ''Unknown error occurred'' \<noteq> []"
    by blast
  with h1 h2 show ?thesis by blast
qed

text \<open>
  The claim as it is written fails on both counts. An \<open>Error\<close> with an empty message,
  thrown by the first call, gives a failure whose error string is empty; and an error
  thrown by \<open>git fetch upstream\<close> is caught at line 191, after which the run goes on
  to a success.
\<close>

theorem error_boundary_counterexample:
  "createGitHubPR opts_own env_empty_error []
     = (Inr \<lparr>success = False, data = None, error = Some []\<rparr>,
        [(SandboxResume ''wmwx2g'', Inl (JsError []))])
   \<and> (CommandsRun (GitFetchUpstream ''repo''), Inl (JsError ''fatal: unable to access upstream''))
       \<in> set (snd (createGitHubPR opts_own env_fetch_fails []))
   \<and> fst (createGitHubPR opts_own env_fetch_fails []) = Inr res_forked"
proof (intro conjI)
  show "createGitHubPR opts_own env_empty_error []
     = (Inr \<lparr>success = False, data = None, error = Some []\<rparr>,
        [(SandboxResume ''wmwx2g'', Inl (JsError []))])"
    by (simp add: workflow_defs prog_apply env_empty_error_def env_ok_def opts_own_def string_defs
          thrown_message_def)
  show "(CommandsRun (GitFetchUpstream ''repo''), Inl (JsError ''fatal: unable to access upstream''))
       \<in> set (snd (createGitHubPR opts_own env_fetch_fails []))"
    by (simp add: workflow_defs prog_apply env_fetch_fails_def env_ok_def opts_own_def
          reply_fetch_fails_def reply_ok_def string_defs fork_url_of_def)
  show "fst (createGitHubPR opts_own env_fetch_fails []) = Inr res_forked"
    by (simp add: workflow_defs prog_apply env_fetch_fails_def env_ok_def opts_own_def
          reply_fetch_fails_def reply_ok_def string_defs fork_url_of_def res_forked_def)
qed

section \<open>Owner or fork\<close>












end
